theory Spec2Isabelle
  imports Complex_Main "HOL-Library.AList" "HOL-Library.Sublist"
begin

section \<open>Values, errors and the effects of a call\<close>

text \<open>
  The module \<open>slurm_plugin/fleet_manager.py\<close> builds request payloads as Python dictionaries
  and talks to EC2 through boto3. Dictionaries are association lists in insertion order
  (a Python \<open>dict\<close> keeps it); the values that occur in a payload form \<open>pyval\<close>.
\<close>

datatype pyval =
    VInt int
  | VBool bool
  | VStr string
  | VList "pyval list"
  | VDict "(string \<times> pyval) list"

type_synonym pydict = "(string \<times> pyval) list"

text \<open>\<open>d.update(other)\<close>: the keys of \<open>other\<close> are written one after the other; a key
  already present keeps its position, a new key goes to the end.\<close>

definition dict_update :: "pydict \<Rightarrow> pydict \<Rightarrow> pydict" where
  "dict_update d other = fold (\<lambda>(k, v). AList.update k v) other d"

text \<open>The three exceptions of the module. \<open>ClientError\<close> carries the request id of the
  failed call when the response metadata has one.\<close>

datatype error =
    KeyError string
  | ClientError "string option"
  | FleetManagerException string

datatype level = DEBUG | INFO | WARNING | ERROR

text \<open>
  What a call does besides returning: the records it hands to the module's logger (level and
  message; the \<open>%s\<close> arguments of a logging call are not recorded), the durations passed to
  \<open>time.sleep\<close> in seconds, the id lists of the \<open>describe_instances\<close> queries it
  issued, and how many random numbers it drew. Python computes the sleep durations in binary
  floating point; here they are exact reals.
\<close>

record world =
  logged :: "(level \<times> string) list"
  slept :: "real list"
  described :: "string list list"
  drawn :: nat

definition log :: "level \<Rightarrow> string \<Rightarrow> world \<Rightarrow> world" where
  "log lv msg w = w\<lparr>logged := logged w @ [(lv, msg)]\<rparr>"

definition sleep :: "real \<Rightarrow> world \<Rightarrow> world" where
  "sleep d w = w\<lparr>slept := slept w @ [d]\<rparr>"

section \<open>Instance descriptions and \<open>EC2Instance\<close>\<close>

text \<open>A raw instance description as \<open>describe_instances\<close> or \<open>run_instances\<close> returns
  it: a dictionary in which each of the fields the module reads may be absent.\<close>

type_synonym timestamp = nat

record instance_info =
  InstanceId :: "string option"
  PrivateIpAddress :: "string option"
  PrivateDnsName :: "string option"
  LaunchTime :: "timestamp option"

text \<open>The class \<open>EC2Instance\<close>: the four constructor arguments and the attribute
  \<open>slurm_node\<close>, which \<open>__init__\<close> sets to \<open>None\<close>.\<close>

record EC2Instance =
  id_attr :: string
  private_ip :: string
  hostname :: string
  launch_time :: timestamp
  slurm_node :: "string option"

definition EC2Instance_init :: "string \<Rightarrow> string \<Rightarrow> string \<Rightarrow> timestamp \<Rightarrow> EC2Instance" where
  "EC2Instance_init i ip h t =
     \<lparr>id_attr = i, private_ip = ip, hostname = h, launch_time = t, slurm_node = None\<rparr>"

text \<open>\<open>self.__dict__\<close>: every attribute of the object.\<close>

definition EC2Instance_dict ::
  "EC2Instance \<Rightarrow> string \<times> string \<times> string \<times> timestamp \<times> string option" where
  "EC2Instance_dict x = (id_attr x, private_ip x, hostname x, launch_time x, slurm_node x)"

text \<open>The right operand of \<open>==\<close> is any Python object.\<close>

datatype pyobject = AnEC2Instance EC2Instance | AnotherObject pyval

fun EC2Instance_eq :: "EC2Instance \<Rightarrow> pyobject \<Rightarrow> bool" where
  "EC2Instance_eq self (AnEC2Instance other) = (EC2Instance_dict self = EC2Instance_dict other)"
| "EC2Instance_eq self (AnotherObject v) = False"

text \<open>\<open>__hash__\<close> is \<open>hash(self.id)\<close>; the interpreter's hash of a string is a parameter.\<close>

definition EC2Instance_hash :: "(string \<Rightarrow> int) \<Rightarrow> EC2Instance \<Rightarrow> int" where
  "EC2Instance_hash hash_str self = hash_str (id_attr self)"

text \<open>Modelled from the spec: \<open>common.ec2_utils.get_private_ip_address_and_dns_name\<close> is not
  among the sources. The spec describes it as the extractor of the private IP and the private
  DNS name of a raw instance description that fails when one of them is absent.\<close>

definition get_private_ip_address_and_dns_name :: "instance_info \<Rightarrow> error + string \<times> string" where
  "get_private_ip_address_and_dns_name instance_info =
     (case PrivateIpAddress instance_info of
        None \<Rightarrow> Inl (KeyError ''PrivateIpAddress'')
      | Some ip \<Rightarrow>
          (case PrivateDnsName instance_info of
             None \<Rightarrow> Inl (KeyError ''PrivateDnsName'')
           | Some dns \<Rightarrow> Inr (ip, dns)))"

text \<open>\<open>EC2Instance.from_describe_instance_data\<close> without its logging: the lookups in the
  order the source evaluates them; \<open>private_dns_name.split(".")[0]\<close> is the part before the
  first dot.\<close>

definition parse_instance_info :: "instance_info \<Rightarrow> error + EC2Instance" where
  "parse_instance_info instance_info =
     (case get_private_ip_address_and_dns_name instance_info of
        Inl e \<Rightarrow> Inl e
      | Inr (ip, dns) \<Rightarrow>
          (case InstanceId instance_info of
             None \<Rightarrow> Inl (KeyError ''InstanceId'')
           | Some i \<Rightarrow>
               (case LaunchTime instance_info of
                  None \<Rightarrow> Inl (KeyError ''LaunchTime'')
                | Some t \<Rightarrow> Inr (EC2Instance_init i ip (takeWhile (\<lambda>c. c \<noteq> CHR ''.'') dns) t))))"

text \<open>The \<open>except KeyError\<close> handler logs at error level and raises the exception again.\<close>

definition from_describe_instance_data :: "instance_info \<Rightarrow> world \<Rightarrow> (error + EC2Instance) \<times> world" where
  "from_describe_instance_data instance_info w =
     (case parse_instance_info instance_info of
        Inl e \<Rightarrow> (Inl e, log ERROR ''Unable to retrieve EC2 instance info: %s'' w)
      | Inr x \<Rightarrow> (Inr x, w))"

section \<open>Configuration and the external collaborators\<close>

text \<open>The configuration of one compute resource is a dictionary read with \<open>[]\<close> (a
  missing key raises \<open>KeyError\<close>) or with \<open>.get\<close>; every key the module reads may be
  absent.\<close>

record instance_type_config =
  InstanceType :: "string option"

record networking_config =
  SubnetIds :: "string list option"

record compute_resource_config =
  Api :: "string option"
  CapacityType :: "string option"
  AllocationStrategy :: "string option"
  MaxPrice :: "real option"
  Instances :: "instance_type_config list option"
  Networking :: "networking_config option"

type_synonym fleet_config = "(string \<times> (string \<times> compute_resource_config) list) list"

type_synonym overrides_config = "(string \<times> (string \<times> pydict) list) list"

text \<open>\<open>d[k]\<close> and \<open>d.get(k, default)\<close> on a dictionary.\<close>

definition getitem :: "(string \<times> 'v) list \<Rightarrow> string \<Rightarrow> error + 'v" where
  "getitem d k = (case map_of d k of None \<Rightarrow> Inl (KeyError k) | Some v \<Rightarrow> Inr v)"

definition get_default :: "(string \<times> 'v) list \<Rightarrow> string \<Rightarrow> 'v \<Rightarrow> 'v" where
  "get_default d k dflt = (case map_of d k of None \<Rightarrow> dflt | Some v \<Rightarrow> v)"

text \<open>One group of the \<open>Instances\<close> list of a \<open>create_fleet\<close> response, one entry of its
  \<open>Errors\<close> list, and the response.\<close>

record fleet_instances =
  InstanceIds :: "string list option"

record fleet_error =
  ErrorCode :: "string option"
  ErrorMessage :: "string option"

record create_fleet_response =
  response_Instances :: "fleet_instances list option"
  response_Errors :: "fleet_error list option"
  response_RequestId :: "string option"

text \<open>What \<open>describe_instances\<close> gives for one query: the descriptions the paginator
  yields, and whether it then raises \<open>ClientError\<close> (at once, when nothing was yielded, or
  on a later page).\<close>

record describe_reply =
  yielded :: "instance_info list"
  fault :: bool

text \<open>
  Everything outside the module is a parameter: Python's \<open>str\<close> of a number and of the
  fleet configuration, the source of \<open>secrets.randbelow\<close>, the EC2 client (the reply to
  the \<open>n\<close>-th \<open>describe_instances\<close> query of a call for given ids, \<open>run_instances\<close>,
  \<open>create_fleet\<close>) and the functions of \<open>slurm_plugin.overrides\<close>, \<open>None\<close> when the
  import fails.
\<close>

record env =
  str_float :: "real \<Rightarrow> string"
  str_fleet_config :: "fleet_config \<Rightarrow> string"
  entropy :: "nat \<Rightarrow> nat"
  ec2_describe_instances :: "nat \<Rightarrow> string list \<Rightarrow> describe_reply"
  ec2_run_instances :: "string \<Rightarrow> string \<Rightarrow> pydict \<Rightarrow> error + instance_info list"
  ec2_create_fleet :: "string \<Rightarrow> string \<Rightarrow> pydict \<Rightarrow> error + create_fleet_response"
  overrides_run_instances :: "(string \<Rightarrow> string \<Rightarrow> pydict \<Rightarrow> error + instance_info list) option"
  overrides_create_fleet :: "(string \<Rightarrow> string \<Rightarrow> pydict \<Rightarrow> error + create_fleet_response) option"

text \<open>\<open>secrets.randbelow(n)\<close> returns some integer of \<open>[0, n)\<close>.\<close>

definition randbelow :: "env \<Rightarrow> nat \<Rightarrow> world \<Rightarrow> nat \<times> world" where
  "randbelow E n w = (entropy E (drawn w) mod n, w\<lparr>drawn := Suc (drawn w)\<rparr>)"

section \<open>The managers and \<open>FleetManagerFactory.get_manager\<close>\<close>

text \<open>The attributes \<open>FleetManager.__init__\<close> stores; the two subclasses add none.\<close>

record fleet_manager =
  self_cluster_name :: string
  self_region :: string
  self_boto3_config :: string
  self_queue :: string
  self_compute_resource :: string
  self_compute_resource_config :: compute_resource_config
  self_all_or_nothing :: bool
  self_launch_overrides :: pydict

datatype manager =
    Ec2CreateFleetManager fleet_manager
  | Ec2RunInstancesManager fleet_manager

text \<open>The three lookups of the \<open>try\<close> block.\<close>

definition lookup_api ::
  "fleet_config \<Rightarrow> string \<Rightarrow> string \<Rightarrow> error + compute_resource_config \<times> string" where
  "lookup_api fleet_cfg q cr =
     (case getitem fleet_cfg q of
        Inl e \<Rightarrow> Inl e
      | Inr queue_config \<Rightarrow>
          (case getitem queue_config cr of
             Inl e \<Rightarrow> Inl e
           | Inr cr_config \<Rightarrow>
               (case Api cr_config of
                  None \<Rightarrow> Inl (KeyError ''Api'')
                | Some api \<Rightarrow> Inr (cr_config, api))))"

text \<open>\<open>'{x}'\<close> in an f-string.\<close>

definition quoted :: "string \<Rightarrow> string" where
  "quoted x = [CHR 0x27] @ x @ [CHR 0x27]"

definition unable_to_find_message :: "env \<Rightarrow> string \<Rightarrow> fleet_config \<Rightarrow> string \<Rightarrow> string \<Rightarrow> string" where
  "unable_to_find_message E key fleet_cfg q cr =
     ''Unable to find''
     @ (if key = ''Api''
        then '' '' @ quoted ''Api'' @ '' key in the compute resource '' @ quoted cr @ '',''
        else '' queue '' @ quoted q @ '' or compute resource '' @ quoted cr)
     @ '' in the fleet config: '' @ str_fleet_config E fleet_cfg"

definition unsupported_api_message :: "string \<Rightarrow> string \<Rightarrow> string \<Rightarrow> string" where
  "unsupported_api_message api q cr =
     ''Unsupported Api '' @ quoted api @ '' specified in queue '' @ quoted q
     @ '', compute resource '' @ quoted cr"

definition get_manager ::
  "env \<Rightarrow> string \<Rightarrow> string \<Rightarrow> string \<Rightarrow> fleet_config \<Rightarrow> string \<Rightarrow> string \<Rightarrow> bool
   \<Rightarrow> overrides_config \<Rightarrow> overrides_config \<Rightarrow> world \<Rightarrow> (error + manager) \<times> world" where
  "get_manager E cluster reg b3 fleet_cfg q cr aon run_instances_overrides create_fleet_overrides w =
     (case lookup_api fleet_cfg q cr of
        Inl (KeyError key) \<Rightarrow>
          (let message = unable_to_find_message E key fleet_cfg q cr
           in (Inl (FleetManagerException message), log ERROR message w))
      | Inl e \<Rightarrow> (Inl e, w)
      | Inr (cr_config, api) \<Rightarrow>
          if api = ''create-fleet'' then
            (Inr (Ec2CreateFleetManager
               \<lparr>self_cluster_name = cluster, self_region = reg, self_boto3_config = b3,
                self_queue = q, self_compute_resource = cr,
                self_compute_resource_config = cr_config, self_all_or_nothing = aon,
                self_launch_overrides = get_default (get_default create_fleet_overrides q []) cr []\<rparr>), w)
          else if api = ''run-instances'' then
            (Inr (Ec2RunInstancesManager
               \<lparr>self_cluster_name = cluster, self_region = reg, self_boto3_config = b3,
                self_queue = q, self_compute_resource = cr,
                self_compute_resource_config = cr_config, self_all_or_nothing = aon,
                self_launch_overrides = get_default (get_default run_instances_overrides q []) cr []\<rparr>), w)
          else (Inl (FleetManagerException (unsupported_api_message api q cr)), w))"

section \<open>Request shaping\<close>

definition launch_template_name :: "fleet_manager \<Rightarrow> string" where
  "launch_template_name self =
     self_cluster_name self @ ''-'' @ self_queue self @ ''-'' @ self_compute_resource self"

subsection \<open>\<open>Ec2RunInstancesManager._evaluate_launch_params\<close>\<close>

definition run_instances_defaults :: "fleet_manager \<Rightarrow> int \<Rightarrow> pydict" where
  "run_instances_defaults self count =
     [(''MinCount'', VInt (if \<not> self_all_or_nothing self then 1 else count)),
      (''MaxCount'', VInt count),
      (''LaunchTemplate'',
         VDict [(''LaunchTemplateName'', VStr (launch_template_name self)),
                (''Version'', VStr ''$Latest'')])]"

definition run_instances_evaluate_launch_params :: "fleet_manager \<Rightarrow> int \<Rightarrow> world \<Rightarrow> pydict \<times> world" where
  "run_instances_evaluate_launch_params self count w =
     (let launch_params = dict_update (run_instances_defaults self count) (self_launch_overrides self)
      in (launch_params,
          if self_launch_overrides self \<noteq> []
          then log INFO ''Found RunInstances parameters override. Launching instances with: %s'' w
          else w))"

subsection \<open>\<open>Ec2CreateFleetManager\<close>: template overrides\<close>

text \<open>The two nested loops of \<open>_evaluate_template_overrides\<close>. The dictionary
  \<open>overrides\<close> is updated in place and a copy of it is appended for every pair; the subnet
  ids are looked up once per instance type and the instance type's name once per pair.\<close>

fun subnet_loop ::
  "instance_type_config \<Rightarrow> pydict \<Rightarrow> pydict list \<Rightarrow> string list \<Rightarrow> error + pydict \<times> pydict list" where
  "subnet_loop instance_type overrides template_overrides [] = Inr (overrides, template_overrides)"
| "subnet_loop instance_type overrides template_overrides (subnet_id # rest) =
     (case InstanceType instance_type of
        None \<Rightarrow> Inl (KeyError ''InstanceType'')
      | Some t \<Rightarrow>
          (let overrides' =
                 dict_update overrides [(''InstanceType'', VStr t), (''SubnetId'', VStr subnet_id)]
           in subnet_loop instance_type overrides' (template_overrides @ [overrides']) rest))"

fun instance_type_loop ::
  "compute_resource_config \<Rightarrow> pydict \<Rightarrow> pydict list \<Rightarrow> instance_type_config list
   \<Rightarrow> error + pydict list" where
  "instance_type_loop cfg overrides template_overrides [] = Inr template_overrides"
| "instance_type_loop cfg overrides template_overrides (instance_type # rest) =
     (case Networking cfg of
        None \<Rightarrow> Inl (KeyError ''Networking'')
      | Some networking \<Rightarrow>
          (case SubnetIds networking of
             None \<Rightarrow> Inl (KeyError ''SubnetIds'')
           | Some subnet_ids \<Rightarrow>
               (case subnet_loop instance_type overrides template_overrides subnet_ids of
                  Inl e \<Rightarrow> Inl e
                | Inr (overrides', template_overrides') \<Rightarrow>
                    instance_type_loop cfg overrides' template_overrides' rest)))"

text \<open>\<open>config.get("MaxPrice")\<close> is tested for truth: an absent price and the price 0 are
  both false.\<close>

definition evaluate_template_overrides :: "env \<Rightarrow> fleet_manager \<Rightarrow> error + pydict list" where
  "evaluate_template_overrides E self =
     (let cfg = self_compute_resource_config self
      in case CapacityType cfg of
           None \<Rightarrow> Inl (KeyError ''CapacityType'')
         | Some capacity_type \<Rightarrow>
             (let overrides =
                    (if capacity_type = ''spot''
                     then (case MaxPrice cfg of
                             None \<Rightarrow> []
                           | Some p \<Rightarrow>
                               if p \<noteq> 0 then dict_update [] [(''MaxPrice'', VStr (str_float E p))]
                               else [])
                     else [])
              in case Instances cfg of
                   None \<Rightarrow> Inl (KeyError ''Instances'')
                 | Some instance_types \<Rightarrow> instance_type_loop cfg overrides [] instance_types))"

subsection \<open>\<open>Ec2CreateFleetManager._evaluate_launch_params\<close>\<close>

definition uses_single_instance_type :: "fleet_manager \<Rightarrow> error + bool" where
  "uses_single_instance_type self =
     (case Instances (self_compute_resource_config self) of
        None \<Rightarrow> Inl (KeyError ''Instances'')
      | Some instance_types \<Rightarrow> Inr (length instance_types = 1))"

definition uses_single_az :: "fleet_manager \<Rightarrow> bool" where
  "uses_single_az self =
     (let subnet_ids =
            (case Networking (self_compute_resource_config self) of
               None \<Rightarrow> []
             | Some networking \<Rightarrow> (case SubnetIds networking of None \<Rightarrow> [] | Some ids \<Rightarrow> ids))
      in length subnet_ids = 1)"

definition all_or_nothing_warning :: string where
  "all_or_nothing_warning =
     ''All-or-Nothing is only available with single instance type compute resources or ''
     @ ''single subnet queues''"

text \<open>The name of the key under which the launch options are sent.\<close>

definition launch_options_key :: "string \<Rightarrow> string" where
  "launch_options_key capacity_type =
     (if capacity_type = ''spot'' then ''SpotOptions'' else ''OnDemandOptions'')"

text \<open>The body of the \<open>try\<close> block, in the order the source evaluates it. The two
  predicates are evaluated several times by the source and once here: they only read the
  configuration.\<close>

definition create_fleet_shape ::
  "env \<Rightarrow> fleet_manager \<Rightarrow> int \<Rightarrow> world \<Rightarrow> (error + pydict) \<times> world" where
  "create_fleet_shape E self count w =
     (let cfg = self_compute_resource_config self
      in case AllocationStrategy cfg of
           None \<Rightarrow> (Inl (KeyError ''AllocationStrategy''), w)
         | Some strategy \<Rightarrow>
             (case uses_single_instance_type self of
                Inl e \<Rightarrow> (Inl e, w)
              | Inr single_instance_type \<Rightarrow>
                  (let single_az = uses_single_az self;
                       options =
                         [(''AllocationStrategy'', VStr strategy),
                          (''SingleInstanceType'', VBool single_instance_type),
                          (''SingleAvailabilityZone'', VBool single_az)];
                       common_launch_options =
                         (if single_az \<or> single_instance_type
                          then dict_update options
                                 [(''MinTargetCapacity'',
                                   VInt (if self_all_or_nothing self then count else 1))]
                          else options);
                       w1 = (if \<not> single_az \<and> \<not> single_instance_type \<and> self_all_or_nothing self
                             then log WARNING all_or_nothing_warning w else w)
                   in case CapacityType cfg of
                        None \<Rightarrow> (Inl (KeyError ''CapacityType''), w1)
                      | Some capacity_type \<Rightarrow>
                          (let launch_options =
                                 (if capacity_type = ''spot''
                                  then [(''SpotOptions'', VDict common_launch_options)]
                                  else [(''OnDemandOptions'',
                                         VDict (dict_update common_launch_options
                                           [(''CapacityReservationOptions'',
                                             VDict [(''UsageStrategy'',
                                                     VStr ''use-capacity-reservations-first'')])]))])
                           in case evaluate_template_overrides E self of
                                Inl e \<Rightarrow> (Inl e, w1)
                              | Inr template_overrides \<Rightarrow>
                                  (Inr (dict_update
                                     [(''LaunchTemplateConfigs'',
                                       VList [VDict
                                         [(''LaunchTemplateSpecification'',
                                           VDict [(''LaunchTemplateName'', VStr (launch_template_name self)),
                                                  (''Version'', VStr ''$Latest'')]),
                                          (''Overrides'', VList (map VDict template_overrides))]]),
                                      (''TargetCapacitySpecification'',
                                       VDict [(''TotalTargetCapacity'', VInt count),
                                              (''DefaultTargetCapacityType'', VStr capacity_type)]),
                                      (''Type'', VStr ''instant'')]
                                     launch_options), w1)))))"

definition missing_key_message :: "string \<Rightarrow> fleet_manager \<Rightarrow> string" where
  "missing_key_message key self =
     ''Unable to find key '' @ quoted key
     @ '' in the configuration of queue: '' @ self_queue self
     @ '', compute resource '' @ self_compute_resource self"

definition create_fleet_evaluate_launch_params ::
  "env \<Rightarrow> fleet_manager \<Rightarrow> int \<Rightarrow> world \<Rightarrow> (error + pydict) \<times> world" where
  "create_fleet_evaluate_launch_params E self count w =
     (case create_fleet_shape E self count w of
        (Inl (KeyError key), w1) \<Rightarrow>
          (let message = missing_key_message key self
           in (Inl (FleetManagerException message), log ERROR message w1))
      | (Inl e, w1) \<Rightarrow> (Inl e, w1)
      | (Inr shaped, w1) \<Rightarrow>
          (let launch_params = dict_update shaped (self_launch_overrides self)
           in (Inr launch_params,
               if self_launch_overrides self \<noteq> []
               then log INFO ''Found CreateFleet parameters override. Launching instances with: %s'' w1
               else w1)))"

section \<open>Metadata reconciliation\<close>

subsection \<open>\<open>Ec2CreateFleetManager._retrieve_instances_info_from_ec2\<close>\<close>

text \<open>The loop over the descriptions the paginator yields. A description that parses is
  appended to \<open>complete_instances\<close>; for one that does not, the handler appends its
  \<open>InstanceId\<close> to \<open>partial_instance_ids\<close>, and that lookup raises \<open>KeyError\<close>
  outside any handler when the id itself is absent.\<close>

fun describe_loop ::
  "instance_info list \<Rightarrow> instance_info list \<Rightarrow> string list \<Rightarrow> world
   \<Rightarrow> (error + instance_info list \<times> string list) \<times> world" where
  "describe_loop [] complete_instances partial_instance_ids w =
     (Inr (complete_instances, partial_instance_ids), w)"
| "describe_loop (instance_info # rest) complete_instances partial_instance_ids w =
     (case from_describe_instance_data instance_info w of
        (Inr x, w1) \<Rightarrow> describe_loop rest (complete_instances @ [instance_info]) partial_instance_ids w1
      | (Inl (KeyError k), w1) \<Rightarrow>
          (let w2 = log DEBUG ''Unable to retrieve instance info: %s'' w1
           in case InstanceId instance_info of
                None \<Rightarrow> (Inl (KeyError ''InstanceId''), w2)
              | Some i \<Rightarrow> describe_loop rest complete_instances (partial_instance_ids @ [i]) w2)
      | (Inl e, w1) \<Rightarrow> (Inl e, w1))"

text \<open>A \<open>ClientError\<close> of the paginator ends the loop with what was collected so far and
  is handled by extending \<open>partial_instance_ids\<close> with all the queried ids.\<close>

definition retrieve_instances_info_from_ec2 ::
  "env \<Rightarrow> string list \<Rightarrow> world \<Rightarrow> (error + instance_info list \<times> string list) \<times> world" where
  "retrieve_instances_info_from_ec2 E instance_ids w =
     (if instance_ids \<noteq> [] then
        (let reply = ec2_describe_instances E (length (described w)) instance_ids;
             w0 = w\<lparr>described := described w @ [instance_ids]\<rparr>
         in case describe_loop (yielded reply) [] [] w0 of
              (Inl e, w1) \<Rightarrow> (Inl e, w1)
            | (Inr (complete_instances, partial_instance_ids), w1) \<Rightarrow>
                if fault reply
                then (Inr (complete_instances, partial_instance_ids @ instance_ids),
                      log DEBUG ''Unable to retrieve instance info: %s'' w1)
                else (Inr (complete_instances, partial_instance_ids), w1))
      else (Inr ([], []), w))"

subsection \<open>\<open>Ec2CreateFleetManager._get_instances_info\<close>\<close>

definition retries :: nat where
  "retries = 5"

definition backoff :: "nat \<Rightarrow> nat \<Rightarrow> real" where
  "backoff attempt_count r = 0.3 * 2 ^ attempt_count + real r / 1000"

function get_instances_info_loop ::
  "env \<Rightarrow> nat \<Rightarrow> instance_info list \<Rightarrow> string list \<Rightarrow> world
   \<Rightarrow> (error + instance_info list \<times> string list) \<times> world" where
  "get_instances_info_loop E attempt_count instances partial_instance_ids w =
     (if attempt_count < retries \<and> partial_instance_ids \<noteq> [] then
        (case retrieve_instances_info_from_ec2 E partial_instance_ids w of
           (Inl e, w1) \<Rightarrow> (Inl e, w1)
         | (Inr (complete_instances, partial_instance_ids'), w1) \<Rightarrow>
             (let instances' = instances @ complete_instances;
                  attempt_count' = attempt_count + 1;
                  w3 = (if attempt_count' < retries
                        then (case randbelow E 500 w1 of
                                (r, w2) \<Rightarrow> sleep (backoff attempt_count' r) w2)
                        else w1)
              in get_instances_info_loop E attempt_count' instances' partial_instance_ids' w3))
      else (Inr (instances, partial_instance_ids), w))"
  by pat_completeness auto
termination
  by (relation "measure (\<lambda>(E, attempt_count, instances, partial_instance_ids, w). retries - attempt_count)")
     auto

definition get_instances_info ::
  "env \<Rightarrow> string list \<Rightarrow> world \<Rightarrow> (error + instance_info list \<times> string list) \<times> world" where
  "get_instances_info E instance_ids w = get_instances_info_loop E 0 [] instance_ids (sleep 0.1 w)"

section \<open>Launching\<close>

text \<open>The module-level functions \<open>run_instances\<close> and \<open>create_fleet\<close>: the function of
  \<open>slurm_plugin.overrides\<close> when the import succeeds, the EC2 client otherwise.\<close>

definition run_instances ::
  "env \<Rightarrow> string \<Rightarrow> string \<Rightarrow> pydict \<Rightarrow> world \<Rightarrow> (error + instance_info list) \<times> world" where
  "run_instances E reg b3 run_instances_kwargs w =
     (case overrides_run_instances E of
        Some override \<Rightarrow>
          (override reg b3 run_instances_kwargs,
           log INFO ''Launching instances with run_instances override API. Parameters: %s'' w)
      | None \<Rightarrow>
          (ec2_run_instances E reg b3 run_instances_kwargs,
           log INFO ''Launching instances with run_instances API. Parameters: %s'' w))"

definition create_fleet ::
  "env \<Rightarrow> string \<Rightarrow> string \<Rightarrow> pydict \<Rightarrow> world \<Rightarrow> (error + create_fleet_response) \<times> world" where
  "create_fleet E reg b3 create_fleet_kwargs w =
     (case overrides_create_fleet E of
        Some override \<Rightarrow>
          (override reg b3 create_fleet_kwargs,
           log INFO ''Launching instances with create_fleet override API. Parameters: %s'' w)
      | None \<Rightarrow>
          (ec2_create_fleet E reg b3 create_fleet_kwargs,
           log INFO ''Launching instances with create_fleet API. Parameters: %s'' w))"

text \<open>\<open>Ec2RunInstancesManager._launch_instances\<close>; the result is the list under the key
  \<open>Instances\<close> of the response.\<close>

definition run_instances_launch_instances ::
  "env \<Rightarrow> fleet_manager \<Rightarrow> pydict \<Rightarrow> world \<Rightarrow> (error + instance_info list) \<times> world" where
  "run_instances_launch_instances E self launch_params w =
     (case run_instances E (self_region self) (self_boto3_config self) launch_params w of
        (Inl (ClientError rid), w1) \<Rightarrow>
          (Inl (ClientError rid), log ERROR ''Failed RunInstances request: %s'' w1)
      | (r, w1) \<Rightarrow> (r, w1))"

text \<open>The comprehension that flattens the instance ids of the response groups.\<close>

fun flatten_instance_ids :: "fleet_instances list \<Rightarrow> error + string list" where
  "flatten_instance_ids [] = Inr []"
| "flatten_instance_ids (instance # rest) =
     (case InstanceIds instance of
        None \<Rightarrow> Inl (KeyError ''InstanceIds'')
      | Some ids \<Rightarrow>
          (case flatten_instance_ids rest of
             Inl e \<Rightarrow> Inl e
           | Inr others \<Rightarrow> Inr (ids @ others)))"

text \<open>One record per entry of the \<open>Errors\<close> list of the response.\<close>

fun log_fleet_errors :: "level \<Rightarrow> fleet_error list \<Rightarrow> world \<Rightarrow> world" where
  "log_fleet_errors log_level [] w = w"
| "log_fleet_errors log_level (err # rest) w =
     log_fleet_errors log_level rest (log log_level ''Error in CreateFleet request (%s): %s - %s'' w)"

text \<open>The body of the \<open>try\<close> block of \<open>Ec2CreateFleetManager._launch_instances\<close>.\<close>

definition create_fleet_launch_body ::
  "env \<Rightarrow> fleet_manager \<Rightarrow> pydict \<Rightarrow> world \<Rightarrow> (error + instance_info list) \<times> world" where
  "create_fleet_launch_body E self launch_params w =
     (case create_fleet E (self_region self) (self_boto3_config self) launch_params w of
        (Inl e, w1) \<Rightarrow> (Inl e, w1)
      | (Inr response, w1) \<Rightarrow>
          (let w2 = log DEBUG ''CreateFleet response: %s'' w1;
               instances = (case response_Instances response of None \<Rightarrow> [] | Some l \<Rightarrow> l);
               log_level = (if instances \<noteq> [] then WARNING else ERROR);
               w3 = log_fleet_errors log_level
                      (case response_Errors response of None \<Rightarrow> [] | Some l \<Rightarrow> l) w2
           in case flatten_instance_ids instances of
                Inl e \<Rightarrow> (Inl e, w3)
              | Inr instance_ids \<Rightarrow>
                  (case get_instances_info E instance_ids w3 of
                     (Inl e, w4) \<Rightarrow> (Inl e, w4)
                   | (Inr (instances', partial_instance_ids), w4) \<Rightarrow>
                       (Inr instances',
                        if partial_instance_ids \<noteq> []
                        then log ERROR ''Unable to retrieve instance info for instances: %s'' w4
                        else w4))))"

definition create_fleet_launch_instances ::
  "env \<Rightarrow> fleet_manager \<Rightarrow> pydict \<Rightarrow> world \<Rightarrow> (error + instance_info list) \<times> world" where
  "create_fleet_launch_instances E self launch_params w =
     (case create_fleet_launch_body E self launch_params w of
        (Inl (ClientError rid), w1) \<Rightarrow>
          (Inl (ClientError rid), log ERROR ''Failed CreateFleet request: %s'' w1)
      | (r, w1) \<Rightarrow> (r, w1))"

text \<open>The two abstract methods, dispatched on the class of the manager.\<close>

fun evaluate_launch_params :: "env \<Rightarrow> manager \<Rightarrow> int \<Rightarrow> world \<Rightarrow> (error + pydict) \<times> world" where
  "evaluate_launch_params E (Ec2RunInstancesManager self) count w =
     (case run_instances_evaluate_launch_params self count w of (p, w1) \<Rightarrow> (Inr p, w1))"
| "evaluate_launch_params E (Ec2CreateFleetManager self) count w =
     create_fleet_evaluate_launch_params E self count w"

fun launch_instances ::
  "env \<Rightarrow> manager \<Rightarrow> pydict \<Rightarrow> world \<Rightarrow> (error + instance_info list) \<times> world" where
  "launch_instances E (Ec2RunInstancesManager self) launch_params w =
     run_instances_launch_instances E self launch_params w"
| "launch_instances E (Ec2CreateFleetManager self) launch_params w =
     create_fleet_launch_instances E self launch_params w"

text \<open>The list comprehension of the \<open>return\<close> statement.\<close>

fun build_instances :: "instance_info list \<Rightarrow> world \<Rightarrow> (error + EC2Instance list) \<times> world" where
  "build_instances [] w = (Inr [], w)"
| "build_instances (instance_info # rest) w =
     (case from_describe_instance_data instance_info w of
        (Inl e, w1) \<Rightarrow> (Inl e, w1)
      | (Inr x, w1) \<Rightarrow>
          (case build_instances rest w1 of
             (Inl e, w2) \<Rightarrow> (Inl e, w2)
           | (Inr xs, w2) \<Rightarrow> (Inr (x # xs), w2)))"

text \<open>\<open>FleetManager.launch_ec2_instances\<close>. The job id only tags the log records of the
  call, a field the records here do not have.\<close>

definition launch_ec2_instances ::
  "env \<Rightarrow> manager \<Rightarrow> int \<Rightarrow> string option \<Rightarrow> world \<Rightarrow> (error + EC2Instance list) \<times> world" where
  "launch_ec2_instances E m count job_id w =
     (case evaluate_launch_params E m count w of
        (Inl e, w1) \<Rightarrow> (Inl e, w1)
      | (Inr launch_params, w1) \<Rightarrow>
          (case launch_instances E m launch_params w1 of
             (Inl e, w2) \<Rightarrow> (Inl e, w2)
           | (Inr assigned_nodes, w2) \<Rightarrow>
               (let w3 = (if length assigned_nodes > 0
                          then log DEBUG ''Full launched instances information: %s''
                                 (log INFO ''Launched the following instances %s'' w2)
                          else w2)
                in build_instances assigned_nodes w3)))"

section \<open>Descriptions used in the statements\<close>

text \<open>The price every template override carries: on the spot branch a configured price that
  is not 0, nothing otherwise.\<close>

definition max_price_override :: "env \<Rightarrow> string \<Rightarrow> compute_resource_config \<Rightarrow> pydict" where
  "max_price_override E ct cfg =
     (if ct = ''spot''
      then (case MaxPrice cfg of None \<Rightarrow> []
            | Some p \<Rightarrow> if p \<noteq> 0 then [(''MaxPrice'', VStr (str_float E p))] else [])
      else [])"

text \<open>The override entry of one pair of an instance type and a subnet id.\<close>

definition override_entry :: "pydict \<Rightarrow> string \<Rightarrow> string \<Rightarrow> pydict" where
  "override_entry price t s = price @ [(''InstanceType'', VStr t), (''SubnetId'', VStr s)]"

text \<open>A description is complete when an \<open>EC2Instance\<close> can be built from it.\<close>

definition complete_info :: "instance_info \<Rightarrow> bool" where
  "complete_info info = (case parse_instance_info info of Inl e \<Rightarrow> False | Inr x \<Rightarrow> True)"

text \<open>The instance ids of a list of descriptions.\<close>

definition info_ids :: "instance_info list \<Rightarrow> string list" where
  "info_ids infos = concat (map (\<lambda>info. case InstanceId info of None \<Rightarrow> [] | Some i \<Rightarrow> [i]) infos)"

text \<open>A reply that reports every queried id as unresolved: every description it yields
  is incomplete and belongs to a queried id, and either the query faults or every queried id
  is described. A reply that leaves a queried id out without a fault is not of this kind.\<close>

definition reports_all_unresolved :: "describe_reply \<Rightarrow> string list \<Rightarrow> bool" where
  "reports_all_unresolved reply ids \<longleftrightarrow>
     (\<forall>info \<in> set (yielded reply). \<not> complete_info info \<and> InstanceId info \<in> Some ` set ids)
     \<and> (fault reply \<or> Some ` set ids \<subseteq> InstanceId ` set (yielded reply))"

text \<open>The world after the increment of \<open>attempt_count\<close> in the loop of
  \<open>_get_instances_info\<close>: the backoff sleep when another attempt is allowed.\<close>

definition after_attempt :: "env \<Rightarrow> nat \<Rightarrow> world \<Rightarrow> world" where
  "after_attempt E attempt_count w1 =
     (if attempt_count < retries
      then sleep (backoff attempt_count (entropy E (drawn w1) mod 500)) (w1\<lparr>drawn := Suc (drawn w1)\<rparr>)
      else w1)"

section \<open>Example inputs\<close>

definition example_env :: env where
  "example_env =
     \<lparr>str_float = (\<lambda>p. ''0.5''),
      str_fleet_config = (\<lambda>c. ''{}''),
      entropy = (\<lambda>n. 137 * n + 620),
      ec2_describe_instances = (\<lambda>n ids. \<lparr>yielded = [], fault = True\<rparr>),
      ec2_run_instances = (\<lambda>reg b3 kwargs. Inr []),
      ec2_create_fleet = (\<lambda>reg b3 kwargs.
         Inr \<lparr>response_Instances = None,
              response_Errors = Some [\<lparr>ErrorCode = Some ''InsufficientInstanceCapacity'',
                                       ErrorMessage = None\<rparr>],
              response_RequestId = Some ''req-1''\<rparr>),
      overrides_run_instances = None,
      overrides_create_fleet = None\<rparr>"

definition example_config :: "string \<Rightarrow> compute_resource_config" where
  "example_config api =
     \<lparr>Api = Some api, CapacityType = Some ''spot'', AllocationStrategy = Some ''lowest-price'',
      MaxPrice = Some (1 / 2),
      Instances = Some [\<lparr>InstanceType = Some ''c5.xlarge''\<rparr>, \<lparr>InstanceType = Some ''c5.2xlarge''\<rparr>],
      Networking = Some \<lparr>SubnetIds = Some [''subnet-a'', ''subnet-b'', ''subnet-c'']\<rparr>\<rparr>"

definition example_manager :: "compute_resource_config \<Rightarrow> pydict \<Rightarrow> fleet_manager" where
  "example_manager cfg overrides =
     \<lparr>self_cluster_name = ''hit'', self_region = ''us-east-2'', self_boto3_config = ''cfg'',
      self_queue = ''queue1'', self_compute_resource = ''fleet-spot'',
      self_compute_resource_config = cfg, self_all_or_nothing = True,
      self_launch_overrides = overrides\<rparr>"

definition example_world :: world where
  "example_world = \<lparr>logged = [], slept = [], described = [], drawn = 0\<rparr>"

definition example_queue_config :: "(string \<times> compute_resource_config) list" where
  "example_queue_config =
     [(''fleet-spot'', example_config ''create-fleet''),
      (''fleet-od'', example_config ''run-instances''),
      (''fleet-other'', example_config ''spot-fleet''),
      (''fleet-noapi'', (example_config ''none'')\<lparr>Api := None\<rparr>)]"

definition example_fleet_config :: fleet_config where
  "example_fleet_config = [(''queue1'', example_queue_config)]"

definition info_complete :: "string \<Rightarrow> instance_info" where
  "info_complete i =
     \<lparr>InstanceId = Some i, PrivateIpAddress = Some ''10.0.0.1'',
      PrivateDnsName = Some ''ip-10-0-0-1.ec2.internal'', LaunchTime = Some 7\<rparr>"

definition info_partial :: "string \<Rightarrow> instance_info" where
  "info_partial i =
     \<lparr>InstanceId = Some i, PrivateIpAddress = None, PrivateDnsName = None, LaunchTime = Some 7\<rparr>"

definition two_attempts_env :: env where
  "two_attempts_env = example_env
     \<lparr>ec2_describe_instances := (\<lambda>n ids.
        if n = 0 then \<lparr>yielded = [info_complete ''i-1'', info_partial ''i-2''], fault = False\<rparr>
        else \<lparr>yielded = map info_complete ids, fault = False\<rparr>)\<rparr>"

definition silent_env :: env where
  "silent_env = example_env
     \<lparr>ec2_describe_instances := (\<lambda>n ids. \<lparr>yielded = [], fault = False\<rparr>)\<rparr>"

definition fault_midway_env :: env where
  "fault_midway_env = example_env
     \<lparr>ec2_describe_instances := (\<lambda>n ids.
        if n = 0 then \<lparr>yielded = [info_complete ''i-1''], fault = True\<rparr>
        else \<lparr>yielded = map info_complete ids, fault = False\<rparr>)\<rparr>"

section \<open>Dictionaries\<close>

lemma map_of_dict_update: "map_of (dict_update d other) = map_of d ++ map_of (rev other)"
proof (induction other arbitrary: d)
  case Nil
  then show ?case by (simp add: dict_update_def)
next
  case (Cons kv other)
  obtain k v where kv: "kv = (k, v)" by (cases kv)
  have "dict_update d (kv # other) = dict_update (AList.update k v d) other"
    by (simp add: dict_update_def kv)
  then show ?case
    using Cons.IH [of "AList.update k v d"]
    by (auto simp: kv update_conv' map_add_def fun_eq_iff split: option.splits)
qed

lemma map_of_dict_update_other:
  "map_of other k = None \<Longrightarrow> map_of (dict_update d other) k = map_of d k"
proof -
  assume "map_of other k = None"
  then have "k \<notin> fst ` set (rev other)" by (simp add: map_of_eq_None_iff)
  then have "map_of (rev other) k = None" by (simp add: map_of_eq_None_iff)
  then show ?thesis by (simp add: map_of_dict_update map_add_def)
qed

section \<open>Instance records\<close>

text \<open>
  C9, as the code has it. \<open>__eq__\<close> compares the whole \<open>__dict__\<close>: two instance records
  are equal iff the instance id, the private IP, the hostname, the launch time and the
  attribute \<open>slurm_node\<close> are all equal. For two records as the constructor leaves them
  (\<open>slurm_node\<close> is \<open>None\<close>) that is equality of the four data-model fields. The hash of a
  record is the hash of its instance id, so records with the same id hash identically
  whatever their other fields are.
\<close>

theorem instance_equality_and_hash:
  "(EC2Instance_eq a (AnEC2Instance b) \<longleftrightarrow>
      id_attr a = id_attr b \<and> private_ip a = private_ip b \<and> hostname a = hostname b
      \<and> launch_time a = launch_time b \<and> slurm_node a = slurm_node b)
   \<and> (EC2Instance_eq (EC2Instance_init i ip h t) (AnEC2Instance (EC2Instance_init i' ip' h' t')) \<longleftrightarrow>
      i = i' \<and> ip = ip' \<and> h = h' \<and> t = t')
   \<and> (id_attr a = id_attr b \<longrightarrow> EC2Instance_hash hash_str a = EC2Instance_hash hash_str b)"
  by (auto simp: EC2Instance_dict_def EC2Instance_init_def EC2Instance_hash_def)

theorem instance_equality_and_hash_witness:
  "\<not> EC2Instance_eq (EC2Instance_init ''i-1'' ''10.0.0.1'' ''ip-10-0-0-1'' 7)
        (AnEC2Instance (EC2Instance_init ''i-1'' ''10.0.0.2'' ''ip-10-0-0-2'' 9))
   \<and> EC2Instance_hash (\<lambda>s. int (length s)) (EC2Instance_init ''i-1'' ''10.0.0.1'' ''ip-10-0-0-1'' 7)
     = EC2Instance_hash (\<lambda>s. int (length s)) (EC2Instance_init ''i-1'' ''10.0.0.2'' ''ip-10-0-0-2'' 9)"
  using instance_equality_and_hash
    [of "EC2Instance_init ''i-1'' ''10.0.0.1'' ''ip-10-0-0-1'' 7"
        "EC2Instance_init ''i-1'' ''10.0.0.2'' ''ip-10-0-0-2'' 9"
        "''i-1''" "''10.0.0.1''" "''ip-10-0-0-1''" 7 "''i-1''" "''10.0.0.2''" "''ip-10-0-0-2''" 9
        "\<lambda>s. int (length s)"]
  by (simp add: EC2Instance_init_def)

text \<open>
  C9 as the spec states it fails: two records that agree on the instance id, the private IP,
  the hostname and the launch time, one of them with a \<open>slurm_node\<close> assigned, do not
  compare equal.
\<close>

theorem instance_equality_four_fields_counterexample:
  "id_attr (EC2Instance_init ''i-1'' ''10.0.0.1'' ''ip-10-0-0-1'' 7)
     = id_attr ((EC2Instance_init ''i-1'' ''10.0.0.1'' ''ip-10-0-0-1'' 7)\<lparr>slurm_node := Some ''queue1-st-c5-1''\<rparr>)
   \<and> private_ip (EC2Instance_init ''i-1'' ''10.0.0.1'' ''ip-10-0-0-1'' 7)
     = private_ip ((EC2Instance_init ''i-1'' ''10.0.0.1'' ''ip-10-0-0-1'' 7)\<lparr>slurm_node := Some ''queue1-st-c5-1''\<rparr>)
   \<and> hostname (EC2Instance_init ''i-1'' ''10.0.0.1'' ''ip-10-0-0-1'' 7)
     = hostname ((EC2Instance_init ''i-1'' ''10.0.0.1'' ''ip-10-0-0-1'' 7)\<lparr>slurm_node := Some ''queue1-st-c5-1''\<rparr>)
   \<and> launch_time (EC2Instance_init ''i-1'' ''10.0.0.1'' ''ip-10-0-0-1'' 7)
     = launch_time ((EC2Instance_init ''i-1'' ''10.0.0.1'' ''ip-10-0-0-1'' 7)\<lparr>slurm_node := Some ''queue1-st-c5-1''\<rparr>)
   \<and> \<not> EC2Instance_eq (EC2Instance_init ''i-1'' ''10.0.0.1'' ''ip-10-0-0-1'' 7)
        (AnEC2Instance ((EC2Instance_init ''i-1'' ''10.0.0.1'' ''ip-10-0-0-1'' 7)\<lparr>slurm_node := Some ''queue1-st-c5-1''\<rparr>))"
  by (simp add: EC2Instance_dict_def EC2Instance_init_def)

section \<open>Strategy A: request shaping\<close>

text \<open>
  C6. For every count of at least 1, the parameters shaped for \<open>run_instances\<close> before the
  caller's overrides have \<open>MinCount = count\<close> when all-or-nothing is set and \<open>MinCount = 1\<close>
  otherwise, \<open>MaxCount = count\<close>, and a launch template named
  \<open>{cluster}-{queue}-{compute resource}\<close> at version \<open>$Latest\<close>. The returned parameters
  are these updated with the overrides, so every key the overrides leave alone keeps its
  shaped value.
\<close>

theorem run_instances_launch_params:
  assumes "1 \<le> count"
  shows "map_of (run_instances_defaults self count) ''MinCount''
           = Some (VInt (if self_all_or_nothing self then count else 1))
       \<and> map_of (run_instances_defaults self count) ''MaxCount'' = Some (VInt count)
       \<and> map_of (run_instances_defaults self count) ''LaunchTemplate''
           = Some (VDict [(''LaunchTemplateName'',
                           VStr (self_cluster_name self @ ''-'' @ self_queue self @ ''-''
                                 @ self_compute_resource self)),
                          (''Version'', VStr ''$Latest'')])
       \<and> fst (run_instances_evaluate_launch_params self count w)
           = dict_update (run_instances_defaults self count) (self_launch_overrides self)
       \<and> (\<forall>k. map_of (self_launch_overrides self) k = None \<longrightarrow>
              map_of (fst (run_instances_evaluate_launch_params self count w)) k
                = map_of (run_instances_defaults self count) k)"
  by (simp add: run_instances_defaults_def run_instances_evaluate_launch_params_def
      launch_template_name_def map_of_dict_update_other Let_def)

theorem run_instances_launch_params_witness:
  "(1::int) \<le> 3
   \<and> map_of (fst (run_instances_evaluate_launch_params
        (example_manager (example_config ''run-instances'') [(''MaxCount'', VInt 9)]) 3 example_world))
        ''MinCount'' = Some (VInt 3)
   \<and> map_of (fst (run_instances_evaluate_launch_params
        (example_manager (example_config ''run-instances'') [(''MaxCount'', VInt 9)]) 3 example_world))
        ''LaunchTemplate''
       = Some (VDict [(''LaunchTemplateName'', VStr ''hit-queue1-fleet-spot''),
                      (''Version'', VStr ''$Latest'')])"
proof -
  have h: "(1::int) \<le> 3" by simp
  note t = run_instances_launch_params
      [OF h, of "example_manager (example_config ''run-instances'') [(''MaxCount'', VInt 9)]" example_world]
  from t have kept:
    "map_of (self_launch_overrides
        (example_manager (example_config ''run-instances'') [(''MaxCount'', VInt 9)])) k = None \<longrightarrow>
     map_of (fst (run_instances_evaluate_launch_params
        (example_manager (example_config ''run-instances'') [(''MaxCount'', VInt 9)]) 3 example_world)) k
       = map_of (run_instances_defaults
        (example_manager (example_config ''run-instances'') [(''MaxCount'', VInt 9)]) 3) k" for k
    by blast
  from kept [of "''MinCount''"] kept [of "''LaunchTemplate''"] t show ?thesis
    by (simp add: example_manager_def)
qed

section \<open>The factory\<close>

lemma sublist_append_left: "sublist x s \<Longrightarrow> sublist x (a @ s)"
  by (metis append.assoc sublist_def)

lemma sublist_append_right: "sublist x s \<Longrightarrow> sublist x (s @ b)"
  by (metis append.assoc sublist_def)

lemma unsupported_api_names:
  "sublist (quoted api) (unsupported_api_message api q cr)
   \<and> sublist (quoted q) (unsupported_api_message api q cr)
   \<and> sublist (quoted cr) (unsupported_api_message api q cr)"
  unfolding unsupported_api_message_def
  apply (intro conjI)
  subgoal by (rule sublist_appendI)
  subgoal by (rule sublist_append_left, rule sublist_append_left, rule sublist_appendI)
  subgoal by (intro sublist_append_left) simp
  done

text \<open>
  C5, as the code has it. When the compute resource declares the API \<open>run-instances\<close> the
  factory returns an \<open>Ec2RunInstancesManager\<close>, when it declares \<open>create-fleet\<close> an
  \<open>Ec2CreateFleetManager\<close>, each bound to the arguments and to the overrides of this queue
  and compute resource. Any other API raises \<open>FleetManagerException\<close> with a message that
  quotes the unsupported value, the queue and the compute resource. A missing queue and a
  missing compute resource (neither of them named \<open>Api\<close>) raise
  \<open>FleetManagerException\<close> with one and the same wording, which quotes both the queue and
  the compute resource and does not say which of the two was not found; a missing \<open>Api\<close>
  key raises it with a wording that quotes the \<open>Api\<close> key and the compute resource.
\<close>

theorem get_manager_selects:
  "(map_of fleet_cfg q = Some qc \<and> map_of qc cr = Some c \<and> Api c = Some ''run-instances'' \<longrightarrow>
      get_manager E cl reg b3 fleet_cfg q cr aon ro co w =
        (Inr (Ec2RunInstancesManager
           \<lparr>self_cluster_name = cl, self_region = reg, self_boto3_config = b3, self_queue = q,
            self_compute_resource = cr, self_compute_resource_config = c, self_all_or_nothing = aon,
            self_launch_overrides = get_default (get_default ro q []) cr []\<rparr>), w))
   \<and> (map_of fleet_cfg q = Some qc \<and> map_of qc cr = Some c \<and> Api c = Some ''create-fleet'' \<longrightarrow>
      get_manager E cl reg b3 fleet_cfg q cr aon ro co w =
        (Inr (Ec2CreateFleetManager
           \<lparr>self_cluster_name = cl, self_region = reg, self_boto3_config = b3, self_queue = q,
            self_compute_resource = cr, self_compute_resource_config = c, self_all_or_nothing = aon,
            self_launch_overrides = get_default (get_default co q []) cr []\<rparr>), w))
   \<and> (map_of fleet_cfg q = Some qc \<and> map_of qc cr = Some c \<and> Api c = Some api
       \<and> api \<noteq> ''create-fleet'' \<and> api \<noteq> ''run-instances'' \<longrightarrow>
      get_manager E cl reg b3 fleet_cfg q cr aon ro co w =
        (Inl (FleetManagerException
           (''Unsupported Api '' @ quoted api @ '' specified in queue '' @ quoted q
            @ '', compute resource '' @ quoted cr)), w)
      \<and> sublist (quoted api) (unsupported_api_message api q cr)
      \<and> sublist (quoted q) (unsupported_api_message api q cr)
      \<and> sublist (quoted cr) (unsupported_api_message api q cr))
   \<and> ((map_of fleet_cfg q = None \<and> q \<noteq> ''Api'')
       \<or> (map_of fleet_cfg q = Some qc \<and> map_of qc cr = None \<and> cr \<noteq> ''Api'') \<longrightarrow>
      get_manager E cl reg b3 fleet_cfg q cr aon ro co w =
        (Inl (FleetManagerException
           (''Unable to find queue '' @ quoted q @ '' or compute resource '' @ quoted cr
            @ '' in the fleet config: '' @ str_fleet_config E fleet_cfg)),
         log ERROR
           (''Unable to find queue '' @ quoted q @ '' or compute resource '' @ quoted cr
            @ '' in the fleet config: '' @ str_fleet_config E fleet_cfg) w))
   \<and> (map_of fleet_cfg q = Some qc \<and> map_of qc cr = Some c \<and> Api c = None \<longrightarrow>
      get_manager E cl reg b3 fleet_cfg q cr aon ro co w =
        (Inl (FleetManagerException
           (''Unable to find '' @ quoted ''Api'' @ '' key in the compute resource '' @ quoted cr
            @ '','' @ '' in the fleet config: '' @ str_fleet_config E fleet_cfg)),
         log ERROR
           (''Unable to find '' @ quoted ''Api'' @ '' key in the compute resource '' @ quoted cr
            @ '','' @ '' in the fleet config: '' @ str_fleet_config E fleet_cfg) w))"
proof (intro conjI impI)
  show "sublist (quoted api) (unsupported_api_message api q cr)"
    "sublist (quoted q) (unsupported_api_message api q cr)"
    "sublist (quoted cr) (unsupported_api_message api q cr)"
    using unsupported_api_names by blast+
qed (auto simp: get_manager_def lookup_api_def getitem_def Let_def unable_to_find_message_def
    unsupported_api_message_def)

theorem get_manager_selects_witness:
  "get_manager example_env ''hit'' ''us-east-2'' ''cfg'' example_fleet_config ''queue1'' ''fleet-od''
     True [] [] example_world
     = (Inr (Ec2RunInstancesManager
          ((example_manager (example_config ''run-instances'') [])\<lparr>self_compute_resource := ''fleet-od''\<rparr>)),
        example_world)
   \<and> get_manager example_env ''hit'' ''us-east-2'' ''cfg'' example_fleet_config ''queue1'' ''fleet-spot''
     True [] [] example_world
     = (Inr (Ec2CreateFleetManager (example_manager (example_config ''create-fleet'') [])), example_world)
   \<and> fst (get_manager example_env ''hit'' ''us-east-2'' ''cfg'' example_fleet_config ''queue1''
       ''fleet-other'' True [] [] example_world)
     = Inl (FleetManagerException
         (''Unsupported Api '' @ quoted ''spot-fleet'' @ '' specified in queue '' @ quoted ''queue1''
          @ '', compute resource '' @ quoted ''fleet-other''))
   \<and> sublist (quoted ''spot-fleet'') (unsupported_api_message ''spot-fleet'' ''queue1'' ''fleet-other'')
   \<and> fst (get_manager example_env ''hit'' ''us-east-2'' ''cfg'' example_fleet_config ''queue2''
       ''fleet-spot'' True [] [] example_world)
     = Inl (FleetManagerException
         (''Unable to find queue '' @ quoted ''queue2'' @ '' or compute resource '' @ quoted ''fleet-spot''
          @ '' in the fleet config: '' @ str_fleet_config example_env example_fleet_config))
   \<and> fst (get_manager example_env ''hit'' ''us-east-2'' ''cfg'' example_fleet_config ''queue1''
       ''fleet-x'' True [] [] example_world)
     = Inl (FleetManagerException
         (''Unable to find queue '' @ quoted ''queue1'' @ '' or compute resource '' @ quoted ''fleet-x''
          @ '' in the fleet config: '' @ str_fleet_config example_env example_fleet_config))
   \<and> fst (get_manager example_env ''hit'' ''us-east-2'' ''cfg'' example_fleet_config ''queue1''
       ''fleet-noapi'' True [] [] example_world)
     = Inl (FleetManagerException
         (''Unable to find '' @ quoted ''Api'' @ '' key in the compute resource '' @ quoted ''fleet-noapi''
          @ '','' @ '' in the fleet config: '' @ str_fleet_config example_env example_fleet_config))"
proof -
  note t = get_manager_selects [where E = example_env and cl = "''hit''" and reg = "''us-east-2''"
      and ?b3.0 = "''cfg''" and aon = True and ro = "[]" and co = "[]" and w = example_world
      and fleet_cfg = example_fleet_config and qc = example_queue_config]
  have cfg: "map_of example_fleet_config ''queue1'' = Some example_queue_config"
    "map_of example_fleet_config ''queue2'' = None"
    "map_of example_queue_config ''fleet-od'' = Some (example_config ''run-instances'')"
    "map_of example_queue_config ''fleet-spot'' = Some (example_config ''create-fleet'')"
    "map_of example_queue_config ''fleet-other'' = Some (example_config ''spot-fleet'')"
    "map_of example_queue_config ''fleet-noapi'' = Some ((example_config ''none'')\<lparr>Api := None\<rparr>)"
    "map_of example_queue_config ''fleet-x'' = None"
    by (simp_all add: example_fleet_config_def example_queue_config_def)
  from t [where q = "''queue1''" and cr = "''fleet-od''" and c = "example_config ''run-instances''"]
  have 1: "get_manager example_env ''hit'' ''us-east-2'' ''cfg'' example_fleet_config ''queue1'' ''fleet-od''
     True [] [] example_world
     = (Inr (Ec2RunInstancesManager
          ((example_manager (example_config ''run-instances'') [])\<lparr>self_compute_resource := ''fleet-od''\<rparr>)),
        example_world)"
    by (simp add: cfg example_config_def example_manager_def get_default_def)
  from t [where q = "''queue1''" and cr = "''fleet-spot''" and c = "example_config ''create-fleet''"]
  have 2: "get_manager example_env ''hit'' ''us-east-2'' ''cfg'' example_fleet_config ''queue1'' ''fleet-spot''
     True [] [] example_world
     = (Inr (Ec2CreateFleetManager (example_manager (example_config ''create-fleet'') [])), example_world)"
    by (simp add: cfg example_config_def example_manager_def get_default_def)
  from t [where q = "''queue1''" and cr = "''fleet-other''" and c = "example_config ''spot-fleet''"
      and api = "''spot-fleet''"]
  have 3: "fst (get_manager example_env ''hit'' ''us-east-2'' ''cfg'' example_fleet_config ''queue1''
       ''fleet-other'' True [] [] example_world)
     = Inl (FleetManagerException
         (''Unsupported Api '' @ quoted ''spot-fleet'' @ '' specified in queue '' @ quoted ''queue1''
          @ '', compute resource '' @ quoted ''fleet-other''))
     \<and> sublist (quoted ''spot-fleet'') (unsupported_api_message ''spot-fleet'' ''queue1'' ''fleet-other'')"
    by (simp add: cfg example_config_def)
  from t [where q = "''queue2''" and cr = "''fleet-spot''"]
  have 4: "fst (get_manager example_env ''hit'' ''us-east-2'' ''cfg'' example_fleet_config ''queue2''
       ''fleet-spot'' True [] [] example_world)
     = Inl (FleetManagerException
         (''Unable to find queue '' @ quoted ''queue2'' @ '' or compute resource '' @ quoted ''fleet-spot''
          @ '' in the fleet config: '' @ str_fleet_config example_env example_fleet_config))"
    by (simp add: cfg)
  from t [where q = "''queue1''" and cr = "''fleet-x''"]
  have 5: "fst (get_manager example_env ''hit'' ''us-east-2'' ''cfg'' example_fleet_config ''queue1''
       ''fleet-x'' True [] [] example_world)
     = Inl (FleetManagerException
         (''Unable to find queue '' @ quoted ''queue1'' @ '' or compute resource '' @ quoted ''fleet-x''
          @ '' in the fleet config: '' @ str_fleet_config example_env example_fleet_config))"
    by (simp add: cfg)
  from t [where q = "''queue1''" and cr = "''fleet-noapi''"
      and c = "(example_config ''none'')\<lparr>Api := None\<rparr>"]
  have 6: "fst (get_manager example_env ''hit'' ''us-east-2'' ''cfg'' example_fleet_config ''queue1''
       ''fleet-noapi'' True [] [] example_world)
     = Inl (FleetManagerException
         (''Unable to find '' @ quoted ''Api'' @ '' key in the compute resource '' @ quoted ''fleet-noapi''
          @ '','' @ '' in the fleet config: '' @ str_fleet_config example_env example_fleet_config))"
    by (simp add: cfg example_config_def)
  from 1 2 3 4 5 6 show ?thesis by (intro conjI) simp_all
qed

text \<open>
  C5 as the spec states it fails where it says that the message names which key was missing.
  In the first two calls below the queue \<open>queue1\<close> is missing from an empty fleet
  configuration, and the compute resource \<open>fleet-x\<close> is missing from the configuration of
  the queue \<open>queue1\<close>: both raise the same wording, which names the queue and the compute
  resource alike. In the third call the missing queue is itself named \<open>Api\<close>, and the
  message reports a missing \<open>Api\<close> key of the compute resource.
\<close>

theorem get_manager_missing_key_counterexample:
  "map_of ([] :: fleet_config) ''queue1'' = None
   \<and> fst (get_manager example_env ''hit'' ''us-east-2'' ''cfg'' [] ''queue1'' ''fleet-x''
          True [] [] example_world)
     = Inl (FleetManagerException
         (''Unable to find queue '' @ quoted ''queue1'' @ '' or compute resource '' @ quoted ''fleet-x''
          @ '' in the fleet config: '' @ str_fleet_config example_env []))
   \<and> map_of [(''queue1'', [])] ''queue1'' = Some ([] :: (string \<times> compute_resource_config) list)
   \<and> fst (get_manager example_env ''hit'' ''us-east-2'' ''cfg'' [(''queue1'', [])] ''queue1'' ''fleet-x''
          True [] [] example_world)
     = Inl (FleetManagerException
         (''Unable to find queue '' @ quoted ''queue1'' @ '' or compute resource '' @ quoted ''fleet-x''
          @ '' in the fleet config: '' @ str_fleet_config example_env [(''queue1'', [])]))
   \<and> map_of ([] :: fleet_config) ''Api'' = None
   \<and> fst (get_manager example_env ''hit'' ''us-east-2'' ''cfg'' [] ''Api'' ''fleet-spot''
          True [] [] example_world)
     = Inl (FleetManagerException
         (''Unable to find '' @ quoted ''Api'' @ '' key in the compute resource '' @ quoted ''fleet-spot''
          @ '','' @ '' in the fleet config: '' @ str_fleet_config example_env []))"
  by (simp add: get_manager_def lookup_api_def getitem_def Let_def unable_to_find_message_def)

section \<open>Strategy B: template overrides\<close>

lemma price_cases_update:
  assumes "price = [] \<or> (\<exists>v. price = [(''MaxPrice'', v)])"
  shows "dict_update price [(''InstanceType'', VStr t), (''SubnetId'', VStr s)] = override_entry price t s"
    and "dict_update (override_entry price t' s') [(''InstanceType'', VStr t), (''SubnetId'', VStr s)]
         = override_entry price t s"
  using assms by (auto simp: dict_update_def override_entry_def)

lemma subnet_loop_entries:
  assumes "price = [] \<or> (\<exists>v. price = [(''MaxPrice'', v)])"
    and "ov = price \<or> (\<exists>t' s'. ov = override_entry price t' s')"
    and "InstanceType it = Some t"
  shows "subnet_loop it ov acc subnets =
           Inr (if subnets = [] then ov else override_entry price t (last subnets),
                acc @ map (override_entry price t) subnets)"
  using assms(2)
proof (induction subnets arbitrary: ov acc)
  case Nil
  then show ?case by simp
next
  case (Cons s subnets)
  have upd: "dict_update ov [(''InstanceType'', VStr t), (''SubnetId'', VStr s)] = override_entry price t s"
    using Cons.prems price_cases_update [OF assms(1)] by auto
  have "subnet_loop it ov acc (s # subnets)
        = subnet_loop it (override_entry price t s) (acc @ [override_entry price t s]) subnets"
    by (simp add: assms(3) upd Let_def)
  also have "\<dots> = Inr (if subnets = [] then override_entry price t s
                         else override_entry price t (last subnets),
                       (acc @ [override_entry price t s]) @ map (override_entry price t) subnets)"
    by (rule Cons.IH) blast
  finally show ?case by simp
qed

lemma subnet_loop_empty: "subnet_loop it ov acc [] = Inr (ov, acc)"
  by simp

lemma instance_type_loop_entries:
  assumes "price = [] \<or> (\<exists>v. price = [(''MaxPrice'', v)])"
    and "ov = price \<or> (\<exists>t' s'. ov = override_entry price t' s')"
    and "Networking cfg = Some nw" and "SubnetIds nw = Some subnets"
    and "map InstanceType its = map Some types"
  shows "instance_type_loop cfg ov acc its =
           Inr (acc @ concat (map (\<lambda>t. map (override_entry price t) subnets) types))"
  using assms(2,5)
proof (induction its arbitrary: ov acc types)
  case Nil
  then show ?case by simp
next
  case (Cons it its)
  from Cons.prems(2) obtain t types' where types: "types = t # types'"
    and it: "InstanceType it = Some t" and rest: "map InstanceType its = map Some types'"
    by (cases types) auto
  let ?ov' = "if subnets = [] then ov else override_entry price t (last subnets)"
  have ov': "?ov' = price \<or> (\<exists>t' s'. ?ov' = override_entry price t' s')"
    using Cons.prems(1) by auto
  have "instance_type_loop cfg ov acc (it # its)
        = instance_type_loop cfg ?ov' (acc @ map (override_entry price t) subnets) its"
    using subnet_loop_entries [OF assms(1) Cons.prems(1) it, of acc subnets]
    by (simp add: assms(3,4))
  also have "\<dots> = Inr ((acc @ map (override_entry price t) subnets)
                        @ concat (map (\<lambda>t. map (override_entry price t) subnets) types'))"
    by (rule Cons.IH [OF ov' rest])
  finally show ?case by (simp add: types)
qed


lemma concat_map_product:
  "concat (map (\<lambda>t. map (f t) ys) xs) = map (\<lambda>(t, s). f t s) (List.product xs ys)"
  by (induction xs) simp_all

lemma pair_index_bound:
  fixes i j N M :: nat
  assumes "i < N" "j < M"
  shows "i * M + j < N * M"
proof -
  have "i * M + j < i * M + M" using assms(2) by simp
  also have "\<dots> = Suc i * M" by simp
  also have "\<dots> \<le> N * M" using assms(1) by (intro mult_le_mono1) simp
  finally show ?thesis .
qed

lemma pair_index_div: "j < m \<Longrightarrow> (i * m + j) div m = (i::nat)"
  by (metis add.commute add.right_neutral div_less div_mult_self1 less_nat_zero_code mult.commute)

lemma pair_index_mod: "j < m \<Longrightarrow> (i * m + j) mod m = (j::nat)"
  by simp

lemma product_entry_nth:
  assumes "i < length xs" "j < length ys"
  shows "map (\<lambda>(t, s). f t s) (List.product xs ys) ! (i * length ys + j) = f (xs ! i) (ys ! j)"
proof -
  have b: "i * length ys + j < length xs * length ys"
    using assms by (rule pair_index_bound)
  have d: "(i * length ys + j) div length ys = i" "(i * length ys + j) mod length ys = j"
    using assms(2) by (rule pair_index_div, rule pair_index_mod)
  from b have "List.product xs ys ! (i * length ys + j) = (xs ! i, ys ! j)"
    by (simp only: product_nth d)
  then show ?thesis using b by (simp add: length_product)
qed

lemma evaluate_template_overrides_product:
  assumes "CapacityType (self_compute_resource_config self) = Some ct"
    and "Instances (self_compute_resource_config self) = Some its"
    and "map InstanceType its = map Some types"
    and "Networking (self_compute_resource_config self) = Some nw"
    and "SubnetIds nw = Some subnets"
  shows "evaluate_template_overrides E self =
           Inr (map (\<lambda>(t, s). override_entry (max_price_override E ct (self_compute_resource_config self)) t s)
                  (List.product types subnets))"
proof -
  let ?cfg = "self_compute_resource_config self"
  let ?price = "max_price_override E ct ?cfg"
  have price: "?price = [] \<or> (\<exists>v. ?price = [(''MaxPrice'', v)])"
    by (auto simp: max_price_override_def split: option.splits)
  have init: "(if ct = ''spot''
               then (case MaxPrice ?cfg of None \<Rightarrow> []
                     | Some p \<Rightarrow> if p \<noteq> 0 then dict_update [] [(''MaxPrice'', VStr (str_float E p))] else [])
               else []) = ?price"
    by (simp add: max_price_override_def dict_update_def split: option.splits)
  have "evaluate_template_overrides E self = instance_type_loop ?cfg ?price [] its"
    unfolding evaluate_template_overrides_def Let_def by (simp add: assms(1,2) init)
  also have "\<dots> = Inr ([] @ concat (map (\<lambda>t. map (override_entry ?price t) subnets) types))"
    by (rule instance_type_loop_entries [OF price _ assms(4,5,3)]) simp
  finally show ?thesis by (simp add: concat_map_product)
qed

text \<open>
  C4, as the code has it. For a compute resource that declares \<open>N\<close> instance types and
  \<open>M\<close> subnet ids, \<open>_evaluate_template_overrides\<close> returns exactly \<open>N * M\<close> entries;
  the entry at position \<open>i * M + j\<close> is the one of the \<open>i\<close>-th instance type and the
  \<open>j\<close>-th subnet id (outer loop over the instance types, inner loop over the subnet ids,
  both in declaration order). On the spot branch with a configured price other than 0 every
  entry carries that same \<open>MaxPrice\<close>; otherwise (another capacity type, no price, or the
  price 0) no entry carries a \<open>MaxPrice\<close>.
\<close>

theorem template_overrides_cartesian:
  assumes "CapacityType (self_compute_resource_config self) = Some ct"
    and "Instances (self_compute_resource_config self) = Some its"
    and "map InstanceType its = map Some types"
    and "Networking (self_compute_resource_config self) = Some nw"
    and "SubnetIds nw = Some subnets"
  shows "\<exists>l. evaluate_template_overrides E self = Inr l
           \<and> length l = length its * length subnets
           \<and> (\<forall>i < length its. \<forall>j < length subnets.
                 l ! (i * length subnets + j) =
                   (if ct = ''spot''
                    then (case MaxPrice (self_compute_resource_config self) of
                            None \<Rightarrow> []
                          | Some p \<Rightarrow> if p \<noteq> 0 then [(''MaxPrice'', VStr (str_float E p))] else [])
                    else [])
                   @ [(''InstanceType'', VStr (types ! i)), (''SubnetId'', VStr (subnets ! j))])
           \<and> (\<forall>p. ct = ''spot'' \<and> MaxPrice (self_compute_resource_config self) = Some p \<and> p \<noteq> 0 \<longrightarrow>
                 (\<forall>e \<in> set l. map_of e ''MaxPrice'' = Some (VStr (str_float E p))))
           \<and> (ct \<noteq> ''spot'' \<or> MaxPrice (self_compute_resource_config self) = None
                \<or> MaxPrice (self_compute_resource_config self) = Some 0 \<longrightarrow>
                 (\<forall>e \<in> set l. map_of e ''MaxPrice'' = None))"
proof -
  let ?price = "max_price_override E ct (self_compute_resource_config self)"
  let ?l = "map (\<lambda>(t, s). override_entry ?price t s) (List.product types subnets)"
  have len: "length its = length types"
    using assms(3) by (metis length_map)
  have l: "evaluate_template_overrides E self = Inr ?l"
    by (rule evaluate_template_overrides_product [OF assms])
  have "length ?l = length its * length subnets"
    by (simp add: length_product len)
  moreover have "\<forall>i < length its. \<forall>j < length subnets.
      ?l ! (i * length subnets + j) =
        (if ct = ''spot''
         then (case MaxPrice (self_compute_resource_config self) of
                 None \<Rightarrow> []
               | Some p \<Rightarrow> if p \<noteq> 0 then [(''MaxPrice'', VStr (str_float E p))] else [])
         else [])
        @ [(''InstanceType'', VStr (types ! i)), (''SubnetId'', VStr (subnets ! j))]"
    by (simp add: product_entry_nth len override_entry_def max_price_override_def)
  moreover have "\<forall>p. ct = ''spot'' \<and> MaxPrice (self_compute_resource_config self) = Some p \<and> p \<noteq> 0 \<longrightarrow>
      (\<forall>e \<in> set ?l. map_of e ''MaxPrice'' = Some (VStr (str_float E p)))"
    by (auto simp: override_entry_def max_price_override_def)
  moreover have "ct \<noteq> ''spot'' \<or> MaxPrice (self_compute_resource_config self) = None
      \<or> MaxPrice (self_compute_resource_config self) = Some 0 \<longrightarrow>
      (\<forall>e \<in> set ?l. map_of e ''MaxPrice'' = None)"
    by (auto simp: override_entry_def max_price_override_def)
  ultimately show ?thesis using l by blast
qed


theorem template_overrides_cartesian_witness:
  "\<exists>l. evaluate_template_overrides example_env (example_manager (example_config ''create-fleet'') []) = Inr l
       \<and> length l = 6
       \<and> l ! 4 = [(''MaxPrice'', VStr ''0.5''), (''InstanceType'', VStr ''c5.2xlarge''),
                  (''SubnetId'', VStr ''subnet-b'')]
       \<and> (\<forall>e \<in> set l. map_of e ''MaxPrice'' = Some (VStr ''0.5''))"
proof -
  let ?M = "example_manager (example_config ''create-fleet'') []"
  let ?its = "[\<lparr>InstanceType = Some ''c5.xlarge''\<rparr>, \<lparr>InstanceType = Some ''c5.2xlarge''\<rparr>]"
  let ?subnets = "[''subnet-a'', ''subnet-b'', ''subnet-c'']"
  have h1: "CapacityType (self_compute_resource_config ?M) = Some ''spot''"
    and h2: "Instances (self_compute_resource_config ?M) = Some ?its"
    and h3: "map InstanceType ?its = map Some [''c5.xlarge'', ''c5.2xlarge'']"
    and h4: "Networking (self_compute_resource_config ?M) = Some \<lparr>SubnetIds = Some ?subnets\<rparr>"
    and h5: "SubnetIds \<lparr>SubnetIds = Some ?subnets\<rparr> = Some ?subnets"
    by (simp_all add: example_manager_def example_config_def)
  from template_overrides_cartesian [OF h1 h2 h3 h4 h5, of example_env]
  obtain l where l: "evaluate_template_overrides example_env ?M = Inr l"
    and len: "length l = length ?its * length ?subnets"
    and nth: "\<And>i j. i < length ?its \<Longrightarrow> j < length ?subnets \<Longrightarrow>
        l ! (i * length ?subnets + j) =
          (if ''spot'' = ''spot''
           then (case MaxPrice (self_compute_resource_config ?M) of
                   None \<Rightarrow> []
                 | Some p \<Rightarrow> if p \<noteq> 0 then [(''MaxPrice'', VStr (str_float example_env p))] else [])
           else [])
          @ [(''InstanceType'', VStr ([''c5.xlarge'', ''c5.2xlarge''] ! i)), (''SubnetId'', VStr (?subnets ! j))]"
    and price: "\<And>p. ''spot'' = ''spot'' \<and> MaxPrice (self_compute_resource_config ?M) = Some p \<and> p \<noteq> 0 \<Longrightarrow>
        (\<forall>e \<in> set l. map_of e ''MaxPrice'' = Some (VStr (str_float example_env p)))"
    by (elim exE conjE) blast
  have "l ! 4 = [(''MaxPrice'', VStr ''0.5''), (''InstanceType'', VStr ''c5.2xlarge''),
                 (''SubnetId'', VStr ''subnet-b'')]"
    using nth [of 1 1]
    by (simp add: example_manager_def example_config_def example_env_def eval_nat_numeral)
  moreover have "\<forall>e \<in> set l. map_of e ''MaxPrice'' = Some (VStr ''0.5'')"
    using price [of "1 / 2"] by (simp add: example_manager_def example_config_def example_env_def)
  ultimately show ?thesis using l len by simp
qed

text \<open>
  C4 as the spec states it fails for a configured price of 0 on the spot branch: the code tests
  \<open>config.get("MaxPrice")\<close> for truth, so no entry carries \<open>MaxPrice\<close>.
\<close>

theorem template_overrides_zero_price_counterexample:
  "CapacityType (self_compute_resource_config
       (example_manager ((example_config ''create-fleet'')\<lparr>MaxPrice := Some 0\<rparr>) [])) = Some ''spot''
   \<and> MaxPrice (self_compute_resource_config
       (example_manager ((example_config ''create-fleet'')\<lparr>MaxPrice := Some 0\<rparr>) [])) = Some 0
   \<and> evaluate_template_overrides example_env
       (example_manager ((example_config ''create-fleet'')\<lparr>MaxPrice := Some 0\<rparr>) [])
     = Inr [[(''InstanceType'', VStr ''c5.xlarge''), (''SubnetId'', VStr ''subnet-a'')],
            [(''InstanceType'', VStr ''c5.xlarge''), (''SubnetId'', VStr ''subnet-b'')],
            [(''InstanceType'', VStr ''c5.xlarge''), (''SubnetId'', VStr ''subnet-c'')],
            [(''InstanceType'', VStr ''c5.2xlarge''), (''SubnetId'', VStr ''subnet-a'')],
            [(''InstanceType'', VStr ''c5.2xlarge''), (''SubnetId'', VStr ''subnet-b'')],
            [(''InstanceType'', VStr ''c5.2xlarge''), (''SubnetId'', VStr ''subnet-c'')]]"
  by (simp add: evaluate_template_overrides_def example_manager_def example_config_def
      dict_update_def Let_def)

section \<open>Strategy B: admission control\<close>

text \<open>
  C1. For every count of at least 1 and a configuration with all the keys request shaping
  reads, \<open>_evaluate_launch_params\<close> returns the launch parameters, and in the launch
  options it computed (left alone by the caller's overrides) \<open>MinTargetCapacity\<close> is present
  iff the compute resource declares exactly one instance type or exactly one subnet id; when
  present its value is the count if all-or-nothing is set and 1 otherwise; and the warning is
  logged exactly when both conditions are false and all-or-nothing is set, in which case the
  request proceeds without \<open>MinTargetCapacity\<close>.
\<close>

theorem min_target_capacity_admission:
  assumes "1 \<le> count"
    and "AllocationStrategy (self_compute_resource_config self) = Some strategy"
    and "CapacityType (self_compute_resource_config self) = Some ct"
    and "Instances (self_compute_resource_config self) = Some its"
    and "map InstanceType its = map Some types"
    and "Networking (self_compute_resource_config self) = Some nw"
    and "SubnetIds nw = Some subnets"
    and "map_of (self_launch_overrides self) (launch_options_key ct) = None"
  shows "\<exists>launch_params opts w'.
           create_fleet_evaluate_launch_params E self count w = (Inr launch_params, w')
         \<and> map_of launch_params (launch_options_key ct) = Some (VDict opts)
         \<and> (map_of opts ''MinTargetCapacity'' \<noteq> None \<longleftrightarrow> length its = 1 \<or> length subnets = 1)
         \<and> (length its = 1 \<or> length subnets = 1 \<longrightarrow>
              map_of opts ''MinTargetCapacity''
                = Some (VInt (if self_all_or_nothing self then count else 1)))
         \<and> logged w' = logged w
              @ (if length its \<noteq> 1 \<and> length subnets \<noteq> 1 \<and> self_all_or_nothing self
                 then [(WARNING, all_or_nothing_warning)] else [])
              @ (if self_launch_overrides self \<noteq> []
                 then [(INFO, ''Found CreateFleet parameters override. Launching instances with: %s'')]
                 else [])"
proof -
  let ?cfg = "self_compute_resource_config self"
  obtain tmpl where tmpl: "evaluate_template_overrides E self = Inr tmpl"
    using evaluate_template_overrides_product [OF assms(3,4,5,6,7)] by blast
  have sit: "uses_single_instance_type self = Inr (length its = 1)"
    by (simp add: uses_single_instance_type_def assms(4))
  have saz: "uses_single_az self = (length subnets = 1)"
    by (simp add: uses_single_az_def assms(6,7))
  let ?options = "[(''AllocationStrategy'', VStr strategy),
                   (''SingleInstanceType'', VBool (length its = 1)),
                   (''SingleAvailabilityZone'', VBool (length subnets = 1))]"
  let ?common = "if length subnets = 1 \<or> length its = 1
                 then dict_update ?options
                        [(''MinTargetCapacity'', VInt (if self_all_or_nothing self then count else 1))]
                 else ?options"
  let ?opts = "if ct = ''spot'' then ?common
               else dict_update ?common
                      [(''CapacityReservationOptions'',
                        VDict [(''UsageStrategy'', VStr ''use-capacity-reservations-first'')])]"
  let ?w1 = "if length subnets \<noteq> 1 \<and> length its \<noteq> 1 \<and> self_all_or_nothing self
             then log WARNING all_or_nothing_warning w else w"
  obtain shaped where shape: "create_fleet_shape E self count w = (Inr shaped, ?w1)"
    and key: "map_of shaped (launch_options_key ct) = Some (VDict ?opts)"
    by (simp add: create_fleet_shape_def assms(2,3) sit saz tmpl Let_def launch_options_key_def
        map_of_dict_update)
  let ?params = "dict_update shaped (self_launch_overrides self)"
  let ?w' = "if self_launch_overrides self \<noteq> []
             then log INFO ''Found CreateFleet parameters override. Launching instances with: %s'' ?w1
             else ?w1"
  have res: "create_fleet_evaluate_launch_params E self count w = (Inr ?params, ?w')"
    by (simp add: create_fleet_evaluate_launch_params_def shape Let_def)
  have p: "map_of ?params (launch_options_key ct) = Some (VDict ?opts)"
    by (simp add: map_of_dict_update_other [OF assms(8)] key)
  have present: "map_of ?opts ''MinTargetCapacity'' \<noteq> None \<longleftrightarrow> length its = 1 \<or> length subnets = 1"
    by (auto simp: map_of_dict_update)
  have val: "length its = 1 \<or> length subnets = 1 \<longrightarrow>
      map_of ?opts ''MinTargetCapacity'' = Some (VInt (if self_all_or_nothing self then count else 1))"
    by (auto simp: map_of_dict_update)
  have lg: "logged ?w' = logged w
      @ (if length its \<noteq> 1 \<and> length subnets \<noteq> 1 \<and> self_all_or_nothing self
         then [(WARNING, all_or_nothing_warning)] else [])
      @ (if self_launch_overrides self \<noteq> []
         then [(INFO, ''Found CreateFleet parameters override. Launching instances with: %s'')]
         else [])"
    by (auto simp: log_def)
  from res p present val lg show ?thesis by blast
qed


theorem min_target_capacity_admission_witness:
  "(\<exists>launch_params opts w'.
      create_fleet_evaluate_launch_params example_env
        (example_manager (example_config ''create-fleet'') []) 3 example_world = (Inr launch_params, w')
      \<and> map_of launch_params ''SpotOptions'' = Some (VDict opts)
      \<and> map_of opts ''MinTargetCapacity'' = None
      \<and> logged w' = [(WARNING, all_or_nothing_warning)])
   \<and> (\<exists>launch_params opts w'.
      create_fleet_evaluate_launch_params example_env
        (example_manager
           ((example_config ''create-fleet'')\<lparr>Networking := Some \<lparr>SubnetIds = Some [''subnet-a'']\<rparr>\<rparr>) [])
        3 example_world = (Inr launch_params, w')
      \<and> map_of launch_params ''SpotOptions'' = Some (VDict opts)
      \<and> map_of opts ''MinTargetCapacity'' = Some (VInt 3)
      \<and> logged w' = [])"
proof -
  let ?its = "[\<lparr>InstanceType = Some ''c5.xlarge''\<rparr>, \<lparr>InstanceType = Some ''c5.2xlarge''\<rparr>]"
  let ?types = "[''c5.xlarge'', ''c5.2xlarge'']"
  let ?M = "example_manager (example_config ''create-fleet'') []"
  let ?M1 = "example_manager
     ((example_config ''create-fleet'')\<lparr>Networking := Some \<lparr>SubnetIds = Some [''subnet-a'']\<rparr>\<rparr>) []"
  have c: "(1::int) \<le> 3" by simp
  have t: "map InstanceType ?its = map Some ?types" by simp
  have a: "AllocationStrategy (self_compute_resource_config ?M) = Some ''lowest-price''"
    "CapacityType (self_compute_resource_config ?M) = Some ''spot''"
    "Instances (self_compute_resource_config ?M) = Some ?its"
    "Networking (self_compute_resource_config ?M)
       = Some \<lparr>SubnetIds = Some [''subnet-a'', ''subnet-b'', ''subnet-c'']\<rparr>"
    "SubnetIds \<lparr>SubnetIds = Some [''subnet-a'', ''subnet-b'', ''subnet-c'']\<rparr>
       = Some [''subnet-a'', ''subnet-b'', ''subnet-c'']"
    "map_of (self_launch_overrides ?M) (launch_options_key ''spot'') = None"
    by (simp_all add: example_manager_def example_config_def)
  have b: "AllocationStrategy (self_compute_resource_config ?M1) = Some ''lowest-price''"
    "CapacityType (self_compute_resource_config ?M1) = Some ''spot''"
    "Instances (self_compute_resource_config ?M1) = Some ?its"
    "Networking (self_compute_resource_config ?M1) = Some \<lparr>SubnetIds = Some [''subnet-a'']\<rparr>"
    "SubnetIds \<lparr>SubnetIds = Some [''subnet-a'']\<rparr> = Some [''subnet-a'']"
    "map_of (self_launch_overrides ?M1) (launch_options_key ''spot'') = None"
    by (simp_all add: example_manager_def example_config_def)
  from min_target_capacity_admission [OF c a(1,2,3) t a(4,5,6), of example_env example_world]
  have first: "\<exists>launch_params opts w'.
      create_fleet_evaluate_launch_params example_env ?M 3 example_world = (Inr launch_params, w')
      \<and> map_of launch_params ''SpotOptions'' = Some (VDict opts)
      \<and> map_of opts ''MinTargetCapacity'' = None
      \<and> logged w' = [(WARNING, all_or_nothing_warning)]"
    by (simp add: launch_options_key_def example_manager_def example_world_def)
  from min_target_capacity_admission [OF c b(1,2,3) t b(4,5,6), of example_env example_world]
  have second: "\<exists>launch_params opts w'.
      create_fleet_evaluate_launch_params example_env ?M1 3 example_world = (Inr launch_params, w')
      \<and> map_of launch_params ''SpotOptions'' = Some (VDict opts)
      \<and> map_of opts ''MinTargetCapacity'' = Some (VInt 3)
      \<and> logged w' = []"
    by (simp add: launch_options_key_def example_manager_def example_world_def) blast
  from first second show ?thesis by blast
qed

section \<open>Metadata reconciliation: the loop\<close>

lemma parse_error_is_key_error: "parse_instance_info info = Inl e \<Longrightarrow> \<exists>k. e = KeyError k"
  by (auto simp: parse_instance_info_def get_private_ip_address_and_dns_name_def
      split: option.splits sum.splits)

lemma from_describe_complete:
  "complete_info info \<Longrightarrow> \<exists>x. from_describe_instance_data info w = (Inr x, w)"
  by (auto simp: complete_info_def from_describe_instance_data_def split: sum.splits)

lemma from_describe_incomplete:
  "\<not> complete_info info \<Longrightarrow>
     \<exists>k. from_describe_instance_data info w
          = (Inl (KeyError k), log ERROR ''Unable to retrieve EC2 instance info: %s'' w)"
  using parse_error_is_key_error [of info]
  by (auto simp: complete_info_def from_describe_instance_data_def split: sum.splits)

lemma log_fields [simp]:
  "slept (log lv msg w) = slept w" "described (log lv msg w) = described w"
  "drawn (log lv msg w) = drawn w" "logged (log lv msg w) = logged w @ [(lv, msg)]"
  by (simp_all add: log_def)

lemma sleep_fields [simp]:
  "slept (sleep d w) = slept w @ [d]" "described (sleep d w) = described w"
  "drawn (sleep d w) = drawn w" "logged (sleep d w) = logged w"
  by (simp_all add: sleep_def)

lemma describe_loop_step_complete:
  "complete_info info \<Longrightarrow>
   describe_loop (info # rest) c p w = describe_loop rest (c @ [info]) p w"
  using from_describe_complete [of info w] by auto

lemma describe_loop_step_incomplete:
  "\<not> complete_info info \<Longrightarrow> InstanceId info = Some i \<Longrightarrow>
   describe_loop (info # rest) c p w =
     describe_loop rest c (p @ [i])
       (log DEBUG ''Unable to retrieve instance info: %s''
          (log ERROR ''Unable to retrieve EC2 instance info: %s'' w))"
  using from_describe_incomplete [of info w] by (auto simp: Let_def)

lemma describe_loop_step_escape:
  "\<not> complete_info info \<Longrightarrow> InstanceId info = None \<Longrightarrow>
   describe_loop (info # rest) c p w =
     (Inl (KeyError ''InstanceId''),
       log DEBUG ''Unable to retrieve instance info: %s''
          (log ERROR ''Unable to retrieve EC2 instance info: %s'' w))"
  using from_describe_incomplete [of info w] by (auto simp: Let_def)

lemma describe_loop_effects:
  "describe_loop infos c p w = (r, w') \<Longrightarrow>
     slept w' = slept w \<and> described w' = described w \<and> drawn w' = drawn w"
proof (induction infos arbitrary: c p w)
  case Nil
  then show ?case by auto
next
  case (Cons info rest)
  show ?case
  proof (cases "complete_info info")
    case True
    with Cons show ?thesis by (simp only: describe_loop_step_complete)
  next
    case False
    show ?thesis
    proof (cases "InstanceId info")
      case None
      from Cons.prems have "w' = log DEBUG ''Unable to retrieve instance info: %s''
          (log ERROR ''Unable to retrieve EC2 instance info: %s'' w)"
        by (simp only: describe_loop_step_escape [OF False None] prod.inject)
      then show ?thesis by simp
    next
      case (Some i)
      from Cons.prems have "describe_loop rest c (p @ [i])
         (log DEBUG ''Unable to retrieve instance info: %s''
            (log ERROR ''Unable to retrieve EC2 instance info: %s'' w)) = (r, w')"
        by (simp only: describe_loop_step_incomplete [OF False Some])
      from Cons.IH [OF this] show ?thesis by simp
    qed
  qed
qed


lemma describe_loop_result:
  assumes "\<forall>info \<in> set infos. \<not> complete_info info \<longrightarrow> InstanceId info \<noteq> None"
  shows "\<exists>w'. describe_loop infos c p w =
           (Inr (c @ filter complete_info infos,
                 p @ info_ids (filter (\<lambda>info. \<not> complete_info info) infos)), w')"
  using assms
proof (induction infos arbitrary: c p w)
  case Nil
  then show ?case by (simp add: info_ids_def)
next
  case (Cons info rest)
  show ?case
  proof (cases "complete_info info")
    case True
    with Cons.IH [of "c @ [info]" p w] Cons.prems show ?thesis
      by (simp add: describe_loop_step_complete del: describe_loop.simps)
  next
    case False
    with Cons.prems obtain i where i: "InstanceId info = Some i" by auto
    from Cons.IH [of c "p @ [i]"] Cons.prems False i show ?thesis
      by (simp add: describe_loop_step_incomplete info_ids_def del: describe_loop.simps)
  qed
qed


lemma set_info_ids: "set (info_ids infos) = {i. Some i \<in> InstanceId ` set infos}"
  by (induction infos) (auto simp: info_ids_def split: option.splits)

lemma retrieve_empty: "retrieve_instances_info_from_ec2 E [] w = (Inr ([], []), w)"
  by (simp add: retrieve_instances_info_from_ec2_def)

lemma retrieve_effects:
  assumes "retrieve_instances_info_from_ec2 E ids w = (r, w')"
  shows "slept w' = slept w \<and> drawn w' = drawn w
       \<and> described w' = (if ids = [] then described w else described w @ [ids])"
proof (cases "ids = []")
  case True
  with assms show ?thesis by (simp add: retrieve_empty)
next
  case False
  let ?reply = "ec2_describe_instances E (length (described w)) ids"
  let ?w0 = "w\<lparr>described := described w @ [ids]\<rparr>"
  obtain r0 w1 where dl: "describe_loop (yielded ?reply) [] [] ?w0 = (r0, w1)"
    by (cases "describe_loop (yielded ?reply) [] [] ?w0")
  from describe_loop_effects [OF dl]
  have w1: "slept w1 = slept w" "described w1 = described w @ [ids]" "drawn w1 = drawn w"
    by simp_all
  from assms False dl have "w' = w1 \<or> w' = log DEBUG ''Unable to retrieve instance info: %s'' w1"
    by (auto simp: retrieve_instances_info_from_ec2_def Let_def split: sum.splits if_splits)
  with w1 False show ?thesis by auto
qed


lemma retrieve_result:
  assumes "ids \<noteq> []"
    and "\<forall>info \<in> set (yielded (ec2_describe_instances E (length (described w)) ids)).
           \<not> complete_info info \<longrightarrow> InstanceId info \<noteq> None"
  shows "\<exists>w'. retrieve_instances_info_from_ec2 E ids w =
           (Inr (filter complete_info (yielded (ec2_describe_instances E (length (described w)) ids)),
                 info_ids (filter (\<lambda>info. \<not> complete_info info)
                            (yielded (ec2_describe_instances E (length (described w)) ids)))
                 @ (if fault (ec2_describe_instances E (length (described w)) ids) then ids else [])),
            w')"
proof -
  let ?reply = "ec2_describe_instances E (length (described w)) ids"
  let ?w0 = "w\<lparr>described := described w @ [ids]\<rparr>"
  from describe_loop_result [OF assms(2), of "[]" "[]" ?w0]
  obtain w1 where "describe_loop (yielded ?reply) [] [] ?w0 =
      (Inr (filter complete_info (yielded ?reply),
            info_ids (filter (\<lambda>info. \<not> complete_info info) (yielded ?reply))), w1)"
    by auto
  with assms(1) show ?thesis
    by (simp add: retrieve_instances_info_from_ec2_def Let_def)
qed

declare get_instances_info_loop.simps [simp del]

lemma loop_stop:
  "\<not> (n < retries \<and> p \<noteq> []) \<Longrightarrow> get_instances_info_loop E n acc p w = (Inr (acc, p), w)"
  by (subst get_instances_info_loop.simps) auto

lemma loop_step:
  assumes "n < retries" "p \<noteq> []"
    and "retrieve_instances_info_from_ec2 E p w = (Inr (c, p'), w1)"
  shows "get_instances_info_loop E n acc p w =
           get_instances_info_loop E (Suc n) (acc @ c) p' (after_attempt E (Suc n) w1)"
  by (subst get_instances_info_loop.simps)
     (simp add: assms after_attempt_def randbelow_def Let_def)


lemma after_attempt_fields:
  "described (after_attempt E k w1) = described w1"
  "slept (after_attempt E k w1) =
     slept w1 @ (if k < retries then [backoff k (entropy E (drawn w1) mod 500)] else [])"
  "drawn (after_attempt E k w1) = (if k < retries then Suc (drawn w1) else drawn w1)"
  by (simp_all add: after_attempt_def)


lemma retrieve_unresolved:
  assumes "q \<noteq> []"
    and "reports_all_unresolved (ec2_describe_instances E (length (described w)) q) q"
  shows "\<exists>p w1. retrieve_instances_info_from_ec2 E q w = (Inr ([], p), w1) \<and> set p = set q"
proof -
  let ?reply = "ec2_describe_instances E (length (described w)) q"
  from assms(2) have inc: "\<forall>info \<in> set (yielded ?reply). \<not> complete_info info"
    and ids: "\<forall>info \<in> set (yielded ?reply). InstanceId info \<in> Some ` set q"
    and all: "fault ?reply \<or> Some ` set q \<subseteq> InstanceId ` set (yielded ?reply)"
    by (auto simp: reports_all_unresolved_def)
  from ids have some: "\<forall>info \<in> set (yielded ?reply). \<not> complete_info info \<longrightarrow> InstanceId info \<noteq> None"
    by auto
  from inc have f1: "filter complete_info (yielded ?reply) = []"
    and f2: "filter (\<lambda>info. \<not> complete_info info) (yielded ?reply) = yielded ?reply"
    by (simp_all add: filter_empty_conv)
  let ?p = "info_ids (yielded ?reply) @ (if fault ?reply then q else [])"
  from retrieve_result [OF assms(1) some] f1 f2
  obtain w1 where r: "retrieve_instances_info_from_ec2 E q w = (Inr ([], ?p), w1)"
    by auto
  have "set (info_ids (yielded ?reply)) \<subseteq> set q"
    using ids by (auto simp: set_info_ids)
  moreover have "\<not> fault ?reply \<Longrightarrow> set q \<subseteq> set (info_ids (yielded ?reply))"
    using all by (auto simp: set_info_ids)
  ultimately have "set ?p = set q" by auto
  with r show ?thesis by blast
qed

lemma loop_unresolved:
  assumes H: "\<forall>k < retries. \<forall>q. set q = set ids \<longrightarrow>
                reports_all_unresolved (ec2_describe_instances E (base + k) q) q"
    and "ids \<noteq> []"
  shows "n \<le> retries \<Longrightarrow> set q = set ids \<Longrightarrow> length (described w) = base + n \<Longrightarrow>
         \<exists>p w'. get_instances_info_loop E n acc q w = (Inr (acc, p), w') \<and> set p = set ids
           \<and> length (described w') = base + retries
           \<and> slept w' = slept w
                @ map (\<lambda>k. backoff k (entropy E (drawn w + (k - Suc n)) mod 500)) [Suc n ..< retries]"
proof (induction "retries - n" arbitrary: n acc q w)
  case 0
  then have n: "n = retries" by simp
  then have "get_instances_info_loop E n acc q w = (Inr (acc, q), w)"
    by (simp add: loop_stop)
  with 0 n show ?case by simp
next
  case (Suc m)
  then have n: "n < retries" by simp
  from Suc.prems(2) assms(2) have q: "q \<noteq> []" by auto
  from H n Suc.prems(2,3)
  have "reports_all_unresolved (ec2_describe_instances E (length (described w)) q) q" by simp
  from retrieve_unresolved [OF q this]
  obtain p w1 where r: "retrieve_instances_info_from_ec2 E q w = (Inr ([], p), w1)"
    and p: "set p = set q" by blast
  from retrieve_effects [OF r] q
  have w1: "slept w1 = slept w" "drawn w1 = drawn w" "described w1 = described w @ [q]"
    by simp_all
  let ?w3 = "after_attempt E (Suc n) w1"
  have step: "get_instances_info_loop E n acc q w = get_instances_info_loop E (Suc n) acc p ?w3"
    using loop_step [OF n q r, of acc] by simp
  have m: "m = retries - Suc n" using Suc.hyps(2) by simp
  have len: "length (described ?w3) = base + Suc n"
    by (simp add: after_attempt_fields w1 Suc.prems(3))
  from Suc.hyps(1) [OF m _ _ len, of p acc] n p Suc.prems(2)
  obtain p' w' where res: "get_instances_info_loop E (Suc n) acc p ?w3 = (Inr (acc, p'), w')"
    and p': "set p' = set ids" and d: "length (described w') = base + retries"
    and sl: "slept w' = slept ?w3
        @ map (\<lambda>k. backoff k (entropy E (drawn ?w3 + (k - Suc (Suc n))) mod 500)) [Suc (Suc n) ..< retries]"
    by auto
  have "slept w' = slept w
      @ map (\<lambda>k. backoff k (entropy E (drawn w + (k - Suc n)) mod 500)) [Suc n ..< retries]"
  proof (cases "Suc n < retries")
    case True
    have "map (\<lambda>k. backoff k (entropy E (drawn ?w3 + (k - Suc (Suc n))) mod 500)) [Suc (Suc n) ..< retries]
        = map (\<lambda>k. backoff k (entropy E (drawn w + (k - Suc n)) mod 500)) [Suc (Suc n) ..< retries]"
      by (rule map_cong) (auto simp: after_attempt_fields w1 True Suc_diff_Suc)
    with sl True show ?thesis
      by (simp add: after_attempt_fields w1 upt_conv_Cons [of "Suc n"])
  next
    case False
    with sl show ?thesis by (simp add: after_attempt_fields w1)
  qed
  with step res p' d show ?case by simp
qed

lemma backoff_increasing:
  assumes "a < 500" "b < 500" "1 \<le> k"
  shows "backoff k a < backoff (Suc k) b"
proof -
  have "(2::real) ^ 1 \<le> 2 ^ k" using assms(3) by (intro power_increasing) simp_all
  then have k: "(2::real) \<le> 2 ^ k" by simp
  have "real a / 1000 < 0.5" using assms(1) by simp
  moreover have "0 \<le> real b / 1000" by simp
  ultimately show ?thesis using k by (simp add: backoff_def)
qed



text \<open>
  Exhaustion when every id is reported back. If there are instance ids and every query
  either faults or yields an incomplete description of each queried id, the loop issues
  exactly 5 queries and returns no complete description and the original ids as unresolved;
  it sleeps 0.1 s before the first query and after each of the attempts 1 to 4 for
  \<open>0.3 * 2 ^ k + j / 1000\<close> seconds with \<open>j\<close> in \<open>[0, 500)\<close>, durations that
  increase strictly. Runs in which a reply leaves an id out are not covered.
\<close>

lemma exhaustion_when_ids_are_reported:
  assumes "instance_ids \<noteq> []"
    and "\<forall>k < 5. \<forall>q. set q = set instance_ids \<longrightarrow>
           reports_all_unresolved (ec2_describe_instances E (length (described w) + k) q) q"
  shows "\<exists>partial_instance_ids w' j1 j2 j3 j4.
           get_instances_info E instance_ids w = (Inr ([], partial_instance_ids), w')
         \<and> set partial_instance_ids = set instance_ids
         \<and> length (described w') = length (described w) + 5
         \<and> j1 < 500 \<and> j2 < 500 \<and> j3 < 500 \<and> j4 < 500
         \<and> slept w' = slept w @ [0.1, 0.3 * 2 ^ 1 + real j1 / 1000, 0.3 * 2 ^ 2 + real j2 / 1000,
                                 0.3 * 2 ^ 3 + real j3 / 1000, 0.3 * 2 ^ 4 + real j4 / 1000]
         \<and> 0.3 * 2 ^ 1 + real j1 / 1000 < 0.3 * 2 ^ 2 + real j2 / 1000
         \<and> 0.3 * 2 ^ 2 + real j2 / 1000 < 0.3 * 2 ^ 3 + real j3 / 1000
         \<and> 0.3 * 2 ^ 3 + real j3 / 1000 < 0.3 * 2 ^ 4 + real j4 / 1000"
proof -
  let ?w0 = "sleep 0.1 w"
  let ?j = "\<lambda>i. entropy E (drawn w + i) mod 500"
  have H: "\<forall>k < retries. \<forall>q. set q = set instance_ids \<longrightarrow>
      reports_all_unresolved (ec2_describe_instances E (length (described w) + k) q) q"
    using assms(2) by (simp add: retries_def)
  from loop_unresolved [OF H assms(1), of 0 instance_ids ?w0 "[]"]
  obtain p w' where res: "get_instances_info_loop E 0 [] instance_ids ?w0 = (Inr ([], p), w')"
    and p: "set p = set instance_ids"
    and d: "length (described w') = length (described w) + retries"
    and sl: "slept w' = slept ?w0
        @ map (\<lambda>k. backoff k (entropy E (drawn ?w0 + (k - Suc 0)) mod 500)) [Suc 0 ..< retries]"
    by auto
  have upt: "[Suc 0 ..< retries] = [1, 2, 3, 4]"
    by (simp add: retries_def upt_rec)
  have sl': "slept w' = slept w @ [0.1, 0.3 * 2 ^ 1 + real (?j 0) / 1000, 0.3 * 2 ^ 2 + real (?j 1) / 1000,
                                  0.3 * 2 ^ 3 + real (?j 2) / 1000, 0.3 * 2 ^ 4 + real (?j 3) / 1000]"
    using sl unfolding upt by (simp add: backoff_def)
  have j: "?j 0 < 500" "?j 1 < 500" "?j 2 < 500" "?j 3 < 500" by simp_all
  have inc: "0.3 * 2 ^ 1 + real (?j 0) / 1000 < 0.3 * 2 ^ 2 + real (?j 1) / 1000"
    "0.3 * 2 ^ 2 + real (?j 1) / 1000 < 0.3 * 2 ^ 3 + real (?j 2) / 1000"
    "0.3 * 2 ^ 3 + real (?j 2) / 1000 < 0.3 * 2 ^ 4 + real (?j 3) / 1000"
    using backoff_increasing [OF j(1) j(2), of 1] backoff_increasing [OF j(2) j(3), of 2]
      backoff_increasing [OF j(3) j(4), of 3]
    by (simp_all add: backoff_def)
  have "get_instances_info E instance_ids w = (Inr ([], p), w')
      \<and> set p = set instance_ids
      \<and> length (described w') = length (described w) + 5
      \<and> ?j 0 < 500 \<and> ?j 1 < 500 \<and> ?j 2 < 500 \<and> ?j 3 < 500
      \<and> slept w' = slept w @ [0.1, 0.3 * 2 ^ 1 + real (?j 0) / 1000, 0.3 * 2 ^ 2 + real (?j 1) / 1000,
                              0.3 * 2 ^ 3 + real (?j 2) / 1000, 0.3 * 2 ^ 4 + real (?j 3) / 1000]
      \<and> 0.3 * 2 ^ 1 + real (?j 0) / 1000 < 0.3 * 2 ^ 2 + real (?j 1) / 1000
      \<and> 0.3 * 2 ^ 2 + real (?j 1) / 1000 < 0.3 * 2 ^ 3 + real (?j 2) / 1000
      \<and> 0.3 * 2 ^ 3 + real (?j 2) / 1000 < 0.3 * 2 ^ 4 + real (?j 3) / 1000"
    using res p d sl' j inc unfolding get_instances_info_def retries_def by (intro conjI)
  then show ?thesis by - ((rule exI)+, assumption)
qed




section \<open>Launching with strategy B\<close>

lemma log_fleet_errors_fields:
  "logged (log_fleet_errors lv errs w)
     = logged w @ replicate (length errs) (lv, ''Error in CreateFleet request (%s): %s - %s'')"
  "slept (log_fleet_errors lv errs w) = slept w"
  "described (log_fleet_errors lv errs w) = described w"
  "drawn (log_fleet_errors lv errs w) = drawn w"
  by (induction errs arbitrary: w) (simp_all add: replicate_app_Cons_same)

lemma get_instances_info_empty: "get_instances_info E [] w = (Inr ([], []), sleep 0.1 w)"
  by (simp add: get_instances_info_def loop_stop)

text \<open>
  C10. When request shaping succeeds and the \<open>create_fleet\<close> call returns a response
  without any launched instance id, \<open>launch_ec2_instances\<close> returns the empty list
  without raising. After the fleet call the reconciliation only sleeps its initial 0.1 s: it
  issues no \<open>describe_instances\<close> query and reports no unresolved id, and the only records
  logged are the debug record of the response and one record per entry of its \<open>Errors\<close>
  list; in particular the summary of launched instances is not logged.
\<close>

theorem empty_fleet_launch:
  assumes "create_fleet_evaluate_launch_params E self count w = (Inr launch_params, w1)"
    and "create_fleet E (self_region self) (self_boto3_config self) launch_params w1 = (Inr response, w2)"
    and "flatten_instance_ids (case response_Instances response of None \<Rightarrow> [] | Some l \<Rightarrow> l) = Inr []"
  shows "\<exists>w'. launch_ec2_instances E (Ec2CreateFleetManager self) count job_id w = (Inr [], w')
           \<and> get_instances_info E [] w2 = (Inr ([], []), sleep 0.1 w2)
           \<and> described w' = described w2
           \<and> slept w' = slept w2 @ [0.1]
           \<and> logged w' = logged w2 @ (DEBUG, ''CreateFleet response: %s'')
                # replicate (length (case response_Errors response of None \<Rightarrow> [] | Some l \<Rightarrow> l))
                    (if (case response_Instances response of None \<Rightarrow> [] | Some l \<Rightarrow> l) \<noteq> []
                     then WARNING else ERROR,
                     ''Error in CreateFleet request (%s): %s - %s'')
           \<and> (INFO, ''Launched the following instances %s'') \<notin> set (drop (length (logged w2)) (logged w'))
           \<and> (ERROR, ''Unable to retrieve instance info for instances: %s'')
                \<notin> set (drop (length (logged w2)) (logged w'))"
proof -
  let ?instances = "case response_Instances response of None \<Rightarrow> [] | Some l \<Rightarrow> l"
  let ?errors = "case response_Errors response of None \<Rightarrow> [] | Some l \<Rightarrow> l"
  let ?lv = "if ?instances \<noteq> [] then WARNING else ERROR"
  let ?w3 = "log_fleet_errors ?lv ?errors (log DEBUG ''CreateFleet response: %s'' w2)"
  let ?w' = "sleep 0.1 ?w3"
  have body: "create_fleet_launch_body E self launch_params w1 = (Inr [], ?w')"
    by (simp add: create_fleet_launch_body_def assms(2,3) Let_def get_instances_info_empty)
  then have "create_fleet_launch_instances E self launch_params w1 = (Inr [], ?w')"
    by (simp add: create_fleet_launch_instances_def)
  then have res: "launch_ec2_instances E (Ec2CreateFleetManager self) count job_id w = (Inr [], ?w')"
    by (simp add: launch_ec2_instances_def assms(1))
  have lg: "logged ?w' = logged w2 @ (DEBUG, ''CreateFleet response: %s'')
      # replicate (length ?errors) (?lv, ''Error in CreateFleet request (%s): %s - %s'')"
    by (simp add: log_fleet_errors_fields)
  have "described ?w' = described w2" "slept ?w' = slept w2 @ [0.1]"
    by (simp_all add: log_fleet_errors_fields)
  moreover have "(INFO, ''Launched the following instances %s'') \<notin> set (drop (length (logged w2)) (logged ?w'))"
    "(ERROR, ''Unable to retrieve instance info for instances: %s'')
       \<notin> set (drop (length (logged w2)) (logged ?w'))"
    unfolding lg by auto
  ultimately show ?thesis using res lg get_instances_info_empty by blast
qed

theorem empty_fleet_launch_witness:
  "\<exists>w'. launch_ec2_instances example_env
          (Ec2CreateFleetManager (example_manager (example_config ''create-fleet'') [])) 3 None example_world
          = (Inr [], w')
        \<and> described w' = [] \<and> slept w' = [0.1]
        \<and> (INFO, ''Launched the following instances %s'') \<notin> set (logged w')"
proof -
  let ?M = "example_manager (example_config ''create-fleet'') []"
  obtain p w1 where a1: "create_fleet_evaluate_launch_params example_env ?M 3 example_world = (Inr p, w1)"
    and w1: "w1 = log WARNING all_or_nothing_warning example_world"
    by (simp add: create_fleet_evaluate_launch_params_def create_fleet_shape_def
        evaluate_template_overrides_def uses_single_instance_type_def uses_single_az_def
        example_manager_def example_config_def Let_def)
  let ?resp = "\<lparr>response_Instances = None,
      response_Errors = Some [\<lparr>ErrorCode = Some ''InsufficientInstanceCapacity'', ErrorMessage = None\<rparr>],
      response_RequestId = Some ''req-1''\<rparr>"
  let ?w2 = "log INFO ''Launching instances with create_fleet API. Parameters: %s'' w1"
  have a2: "create_fleet example_env (self_region ?M) (self_boto3_config ?M) p w1 = (Inr ?resp, ?w2)"
    by (simp add: create_fleet_def example_env_def)
  have a3: "flatten_instance_ids (case response_Instances ?resp of None \<Rightarrow> [] | Some l \<Rightarrow> l) = Inr []"
    by simp
  from empty_fleet_launch [OF a1 a2 a3, of None]
  show ?thesis by (auto simp: w1 example_world_def log_def)
qed

section \<open>Metadata reconciliation: three runs of the code\<close>

text \<open>
  C3 asks that a reconciliation whose ids are all resolved by the second query returns after
  exactly two queries without any further sleep. The run below has two ids, the first resolved
  by query 1 and the second by query 2. The code returns both descriptions after two queries,
  but it has slept three times: 0.1 s before the first query, the backoff after attempt 1, and
  a backoff of \<open>0.3 * 2 ^ 2\<close> s plus jitter after attempt 2, when nothing was left to query.
\<close>

theorem early_exit_extra_sleep:
  "fst (get_instances_info two_attempts_env [''i-1'', ''i-2''] example_world)
     = Inr ([info_complete ''i-1'', info_complete ''i-2''], [])
   \<and> described (snd (get_instances_info two_attempts_env [''i-1'', ''i-2''] example_world))
     = [[''i-1'', ''i-2''], [''i-2'']]
   \<and> slept (snd (get_instances_info two_attempts_env [''i-1'', ''i-2''] example_world))
     = [0.1, 0.3 * 2 ^ 1 + 120 / 1000, 0.3 * 2 ^ 2 + 257 / 1000]"
  by (simp add: get_instances_info_def get_instances_info_loop.simps retrieve_instances_info_from_ec2_def
      from_describe_instance_data_def parse_instance_info_def get_private_ip_address_and_dns_name_def
      two_attempts_env_def example_env_def example_world_def info_complete_def info_partial_def
      retries_def backoff_def randbelow_def sleep_def log_def Let_def EC2Instance_init_def)

text \<open>
  C8 asks that the two returned lists partition the input ids, with no id twice among the
  resolved descriptions, also when a query faults after some descriptions were parsed. In the
  run below query 1 yields the complete description of \<open>i-1\<close> and then faults, and query 2
  resolves what it is asked. The handler of the fault reports all the ids of query 1 as
  unresolved, \<open>i-1\<close> included, so \<open>i-1\<close> is queried again and its description is
  returned twice.
\<close>

theorem fault_after_parse_duplicates:
  "fst (get_instances_info fault_midway_env [''i-1'', ''i-2''] example_world)
     = Inr ([info_complete ''i-1'', info_complete ''i-1'', info_complete ''i-2''], [])
   \<and> described (snd (get_instances_info fault_midway_env [''i-1'', ''i-2''] example_world))
     = [[''i-1'', ''i-2''], [''i-1'', ''i-2'']]"
  by (simp add: get_instances_info_def get_instances_info_loop.simps retrieve_instances_info_from_ec2_def
      from_describe_instance_data_def parse_instance_info_def get_private_ip_address_and_dns_name_def
      fault_midway_env_def example_env_def example_world_def info_complete_def
      retries_def backoff_def randbelow_def sleep_def log_def Let_def EC2Instance_init_def)

text \<open>
  C2 asks that a reconciliation whose ids never resolve makes exactly 5 queries and returns
  all the original ids as unresolved, having slept exactly 4 times after the initial delay.
  In the run below no query faults and no query returns a description, so the two ids never
  resolve. The code rebuilds the list of unresolved ids from the descriptions a query
  returns, so both ids fall out of it after query 1: the loop stops after one query and one
  backoff sleep and returns no complete description and no unresolved id.
\<close>

theorem omitted_ids_are_dropped:
  "fst (get_instances_info silent_env [''i-1'', ''i-2''] example_world) = Inr ([], [])
   \<and> described (snd (get_instances_info silent_env [''i-1'', ''i-2''] example_world))
     = [[''i-1'', ''i-2'']]
   \<and> slept (snd (get_instances_info silent_env [''i-1'', ''i-2''] example_world))
     = [0.1, 0.3 * 2 ^ 1 + 120 / 1000]"
  by (simp add: get_instances_info_def get_instances_info_loop.simps retrieve_instances_info_from_ec2_def
      silent_env_def example_env_def example_world_def
      retries_def backoff_def randbelow_def sleep_def Let_def)

end
